theory Spec2Isabelle
  imports Complex_Main "HOL-Library.Log_Nat"
begin

section \<open>The OP\_CHECKDATASIG activation test: a model of checkdatasig-activation.py\<close>

text \<open>
  The theory embeds \<^verbatim>\<open>qa/rpc-tests/checkdatasig-activation.py\<close>: the two transaction
  builders (\<^verbatim>\<open>create_checkdatasig_tx\<close>, \<^verbatim>\<open>spend_checkdatasig\<close>), the block helpers
  (\<^verbatim>\<open>next_block\<close>, \<^verbatim>\<open>add_tx\<close>) and the scripted generator \<^verbatim>\<open>get_tests\<close>.
  The node under test is a parameter: a transition function from a request and a node
  state to a response and the next node state.
\<close>

subsection \<open>Exceptions\<close>

text \<open>
  Every exception the script can raise is a value. \<open>Diverged\<close> is not an exception: it
  is the outcome of a run whose proof-of-work search never returns.
\<close>

datatype error =
    AssertionError
  | IndexError
  | ZeroDivisionError
  | OverflowError
  | TypeError
  | StructError
  | JSONRPCException int string
  | TimeoutException
  | Diverged

subsection \<open>Python numbers\<close>

text \<open>
  An output amount is a Python \<^verbatim>\<open>int\<close> until \<^verbatim>\<open>nValue -= min(value/100, 1000)\<close> subtracts
  the result of a true division, which is a \<^verbatim>\<open>float\<close>. A float is represented by the
  rational value of the binary64 number; infinities, NaN and the sign of zero are not
  represented, and an operation whose binary64 result would overflow returns
  \<open>OverflowError\<close> (which is what CPython raises for \<^verbatim>\<open>int / int\<close> and for the
  conversion of an \<^verbatim>\<open>int\<close> to \<^verbatim>\<open>float\<close>).
\<close>

datatype pynum = PyInt int | PyFloat rat

definition round_half_even :: "rat \<Rightarrow> int" where
  "round_half_even x =
     (let f = \<lfloor>x\<rfloor>; d = x - of_int f
      in if d < 1 / 2 then f
         else if 1 / 2 < d then f + 1
         else if even f then f else f + 1)"

text \<open>\<open>fexp q\<close>, for \<open>q > 0\<close>, is the binary exponent \<open>e\<close> with \<open>2^e \<le> q < 2^(e+1)\<close>.\<close>

definition fexp :: "rat \<Rightarrow> int" where
  "fexp q =
     (let (a, b) = quotient_of q; d = bitlen a - bitlen b
      in if power_int 2 d \<le> q then d else d - 1)"

text \<open>
  Rounding of an exact value to binary64, round-to-nearest, ties to even: 53 significant
  bits, least exponent of the unit in the last place \<open>-1074\<close>, overflow at \<open>2^1024\<close>.
\<close>

definition fl64 :: "rat \<Rightarrow> error + rat" where
  "fl64 q =
     (if q = 0 then Inr 0
      else
        let u = max (fexp \<bar>q\<bar> - 52) (- 1074);
            m = round_half_even (\<bar>q\<bar> / power_int 2 u);
            r = of_int m * power_int 2 u
        in if power_int 2 1024 \<le> r then Inl OverflowError else Inr (sgn q * r))"

definition py_value :: "pynum \<Rightarrow> rat" where
  "py_value v = (case v of PyInt i \<Rightarrow> of_int i | PyFloat f \<Rightarrow> f)"

definition to_float :: "pynum \<Rightarrow> error + rat" where
  "to_float v = (case v of PyInt i \<Rightarrow> fl64 (of_int i) | PyFloat f \<Rightarrow> Inr f)"

definition float_result :: "error + rat \<Rightarrow> error + pynum" where
  "float_result r = (case r of Inl e \<Rightarrow> Inl e | Inr f \<Rightarrow> Inr (PyFloat f))"

text \<open>
  \<^verbatim>\<open>a / b\<close>: true division. Of two ints it is the correctly rounded exact quotient;
  otherwise both operands become floats first.
\<close>

fun py_truediv :: "pynum \<Rightarrow> pynum \<Rightarrow> error + pynum" where
  "py_truediv (PyInt a) (PyInt b) =
     (if b = 0 then Inl ZeroDivisionError
      else float_result (fl64 (of_int a / of_int b)))"
| "py_truediv a b =
     (case to_float a of
        Inl e \<Rightarrow> Inl e
      | Inr x \<Rightarrow>
          (case to_float b of
             Inl e \<Rightarrow> Inl e
           | Inr y \<Rightarrow> if y = 0 then Inl ZeroDivisionError else float_result (fl64 (x / y))))"

text \<open>\<^verbatim>\<open>a - b\<close>: exact on two ints, a float otherwise.\<close>

fun py_sub :: "pynum \<Rightarrow> pynum \<Rightarrow> error + pynum" where
  "py_sub (PyInt a) (PyInt b) = Inr (PyInt (a - b))"
| "py_sub a b =
     (case to_float a of
        Inl e \<Rightarrow> Inl e
      | Inr x \<Rightarrow>
          (case to_float b of
             Inl e \<Rightarrow> Inl e
           | Inr y \<Rightarrow> float_result (fl64 (x - y))))"

text \<open>
  \<^verbatim>\<open>min(a, b)\<close> keeps its first argument unless the second is strictly smaller; Python
  compares an int with a float by exact value.
\<close>

definition py_min :: "pynum \<Rightarrow> pynum \<Rightarrow> pynum" where
  "py_min a b = (if py_value b < py_value a then b else a)"

definition is_integral :: "pynum \<Rightarrow> bool" where
  "is_integral v = (py_value v = of_int \<lfloor>py_value v\<rfloor>)"

text \<open>Python indexing \<^verbatim>\<open>xs[i]\<close>: a negative index counts from the end.\<close>

definition py_index :: "'a list \<Rightarrow> int \<Rightarrow> error + 'a" where
  "py_index xs i =
     (let len = int (length xs); j = (if i < 0 then len + i else i)
      in if 0 \<le> j \<and> j < len then Inr (xs ! nat j) else Inl IndexError)"

subsection \<open>Scripts, transactions, blocks\<close>

text \<open>
  A byte string is written as its hexadecimal text, as the source writes it. A script is
  the list of items given to \<^verbatim>\<open>CScript\<close>.
\<close>

datatype opcode = OP_CHECKDATASIG | OP_RETURN

datatype script_item = Bytes string | Num int | Op opcode

type_synonym CScript = "script_item list"

record COutPoint =
  op_hash :: int
  op_n :: int

record CTxIn =
  prevout :: COutPoint
  scriptSig :: string

record CTxOut =
  nValue :: pynum
  scriptPubKey :: CScript

text \<open>\<open>sha256\<close> is the cached identity: \<open>None\<close> until \<^verbatim>\<open>rehash\<close> computes it.\<close>

record CTransaction =
  vin :: "CTxIn list"
  vout :: "CTxOut list"
  sha256 :: "int option"

record CBlock =
  hashPrevBlock :: int
  nTime :: int
  hashMerkleRoot :: int
  nNonce :: int
  vtx :: "CTransaction list"
  block_sha256 :: "int option"

record PreviousSpendableOutput =
  pso_tx :: CTransaction
  pso_n :: int

definition new_CTxIn :: "COutPoint \<Rightarrow> CTxIn" where
  "new_CTxIn p = \<lparr>prevout = p, scriptSig = ''''\<rparr>"

definition new_CTransaction :: CTransaction where
  "new_CTransaction = \<lparr>vin = [], vout = [], sha256 = None\<rparr>"

definition NOV152018_START_TIME :: int where
  "NOV152018_START_TIME = 2000000000"

definition BAD_OPCODE_ERROR :: string where
  "BAD_OPCODE_ERROR = ''mandatory-script-verify-flag-failed (Opcode missing or not understood)''"

definition RPC_BAD_OPCODE_ERROR :: string where
  "RPC_BAD_OPCODE_ERROR = ''16: '' @ BAD_OPCODE_ERROR"

subsection \<open>The codec\<close>

text \<open>
  Modelled from the spec: the Primitive Codec (\<^verbatim>\<open>toHex\<close>, \<^verbatim>\<open>ToHex\<close>, \<^verbatim>\<open>FromHex\<close>,
  \<^verbatim>\<open>rehash\<close> of \<^verbatim>\<open>test_framework\<close>) is not part of the script. The spec makes the
  serialisation deterministic and invertible, with inputs as outpoint references and each
  output an integer amount and a locking script; so a serialised transaction is
  represented by exactly that content, and an output whose amount is not an integer has no
  serialisation (the codec raises). The identity hash is a function \<open>hash256\<close> of the
  serialisation, a parameter of the model.
\<close>

datatype rawtx = RawTx (raw_vin: "CTxIn list") (raw_vout: "(int \<times> CScript) list")

fun ser_vout :: "CTxOut list \<Rightarrow> error + (int \<times> CScript) list" where
  "ser_vout [] = Inr []"
| "ser_vout (out # outs) =
     (case nValue out of
        PyFloat f \<Rightarrow> Inl StructError
      | PyInt i \<Rightarrow>
          (case ser_vout outs of
             Inl e \<Rightarrow> Inl e
           | Inr r \<Rightarrow> Inr ((i, scriptPubKey out) # r)))"

definition ToHex :: "CTransaction \<Rightarrow> error + rawtx" where
  "ToHex tx = (case ser_vout (vout tx) of Inl e \<Rightarrow> Inl e | Inr outs \<Rightarrow> Inr (RawTx (vin tx) outs))"

definition FromHex :: "rawtx \<Rightarrow> CTransaction" where
  "FromHex raw =
     \<lparr>vin = raw_vin raw,
      vout = map (\<lambda>(v, s). \<lparr>nValue = PyInt v, scriptPubKey = s\<rparr>) (raw_vout raw),
      sha256 = None\<rparr>"

definition rehash :: "(rawtx \<Rightarrow> int) \<Rightarrow> CTransaction \<Rightarrow> error + CTransaction" where
  "rehash hash256 tx =
     (case ToHex tx of Inl e \<Rightarrow> Inl e | Inr raw \<Rightarrow> Inr (tx\<lparr>sha256 := Some (hash256 raw)\<rparr>))"

subsection \<open>create\_checkdatasig\_tx: the part that builds the transaction\<close>

text \<open>
  An entry of \<^verbatim>\<open>listunspent\<close>. The amount is a \<^verbatim>\<open>Decimal\<close>, an exact decimal fraction;
  the transaction id, which the node prints as 64 hexadecimal digits, is represented by
  the number the digits denote, so that \<^verbatim>\<open>int(utxo["txid"], 16)\<close> is that number.
\<close>

record utxo =
  u_txid :: int
  u_vout :: int
  u_amount :: rat

definition COIN :: int where
  "COIN = 100000000"

text \<open>\<^verbatim>\<open>int(x)\<close> of a Decimal truncates towards zero.\<close>

definition py_int :: "rat \<Rightarrow> int" where
  "py_int x = (if 0 \<le> x then \<lfloor>x\<rfloor> else \<lceil>x\<rceil>)"

text \<open>
  Modelled from the spec: \<^verbatim>\<open>satoshi_round\<close> is a helper of \<^verbatim>\<open>test_framework.util\<close>, not
  part of the script; amounts are integer numbers of the smallest unit, \<open>COIN\<close> of which
  make one coin, and the helper cuts a decimal amount down (towards zero) to a whole
  number of them.
\<close>

definition satoshi_round :: "rat \<Rightarrow> rat" where
  "satoshi_round a = of_int (py_int (a * of_int COIN)) / of_int COIN"

definition signature :: string where
  "signature = ''30440220256c12175e809381f97637933ed6ab97737d263eaaebca6add21bced67fd12a402205ce29ecc1369d6fc1b51977ed38faaf41119e3be1d7edfafd7cfaf0b6061bd07''"

definition message :: string where
  "message = ''''"

definition pubkey :: string where
  "pubkey = ''038282263212c609d9ea2a6e3e172de238d8c39cabd5ac1ca10646e23fd5f51508''"

definition checkdatasig_script :: CScript where
  "checkdatasig_script = [Bytes signature, Bytes message, Bytes pubkey, Op OP_CHECKDATASIG]"

text \<open>\<^verbatim>\<open>min(value/100, 1000)\<close>, the amount both builders take off the first output.\<close>

definition fee :: "pynum \<Rightarrow> error + pynum" where
  "fee v =
     (case py_truediv v (PyInt 100) of
        Inl e \<Rightarrow> Inl e
      | Inr q \<Rightarrow> Inr (py_min q (PyInt 1000)))"

text \<open>
  \<^verbatim>\<open>tx.vout[0].nValue -= min(v/100, 1000)\<close>: the target \<^verbatim>\<open>tx.vout[0]\<close> is evaluated
  first, so an empty output list raises \<open>IndexError\<close> before the fee is computed.
\<close>

definition deduct_fee :: "pynum \<Rightarrow> CTransaction \<Rightarrow> error + CTransaction" where
  "deduct_fee v tx =
     (case vout tx of
        [] \<Rightarrow> Inl IndexError
      | out # outs \<Rightarrow>
          (case fee v of
             Inl e \<Rightarrow> Inl e
           | Inr f \<Rightarrow>
               (case py_sub (nValue out) f of
                  Inl e \<Rightarrow> Inl e
                | Inr w \<Rightarrow> Inr (tx\<lparr>vout := out\<lparr>nValue := w\<rparr> # outs\<rparr>))))"

text \<open>
  Lines 48 to 60 of the script: the transaction built from the chosen unspent output.
  \<^verbatim>\<open>range(count)\<close> is empty for \<open>count \<le> 0\<close>; \<^verbatim>\<open>// count\<close> raises for \<open>count = 0\<close>.
\<close>

definition output_value :: "utxo \<Rightarrow> int \<Rightarrow> int" where
  "output_value u count = py_int (satoshi_round (u_amount u) * of_int COIN) div count"

definition checkdatasig_tx :: "utxo \<Rightarrow> int \<Rightarrow> error + CTransaction" where
  "checkdatasig_tx u count =
     (if count = 0 then Inl ZeroDivisionError
      else
        let v = output_value u count;
            tx = new_CTransaction
              \<lparr>vin := [new_CTxIn \<lparr>op_hash = u_txid u, op_n = u_vout u\<rparr>],
               vout := replicate (nat count) \<lparr>nValue = PyInt v, scriptPubKey = checkdatasig_script\<rparr>\<rparr>
        in deduct_fee (PyInt v) tx)"

subsection \<open>spend\_checkdatasig\<close>

text \<open>
  The closure pops the last entry of the list \<^verbatim>\<open>spendable_checkdatasigs\<close> (which it
  shares with \<^verbatim>\<open>get_tests\<close>), so the list is an argument and a result. The value of
  \<^verbatim>\<open>random.getrandbits(800)\<close> is the argument \<open>r\<close>. \<^verbatim>\<open>tx.rehash()\<close> serialises: it
  raises on a cached identity that was never computed (\<open>TypeError\<close>) as on a
  non-integer amount.
\<close>

definition spend_checkdatasig ::
  "(rawtx \<Rightarrow> int) \<Rightarrow> int \<Rightarrow> PreviousSpendableOutput list \<Rightarrow>
     (error + CTransaction) \<times> PreviousSpendableOutput list" where
  "spend_checkdatasig hash256 r spendable =
     (if spendable = [] then (Inl IndexError, spendable)
      else
        let outpoint = last spendable; rest = butlast spendable
        in (case py_index (vout (pso_tx outpoint)) (pso_n outpoint) of
              Inl e \<Rightarrow> (Inl e, rest)
            | Inr out \<Rightarrow>
                (case sha256 (pso_tx outpoint) of
                   None \<Rightarrow> (Inl TypeError, rest)
                 | Some h \<Rightarrow>
                     let tx = new_CTransaction
                       \<lparr>vin := [new_CTxIn \<lparr>op_hash = h, op_n = pso_n outpoint\<rparr>],
                        vout := [\<lparr>nValue = nValue out, scriptPubKey = []\<rparr>,
                                 \<lparr>nValue = PyInt 0, scriptPubKey = [Num r, Op OP_RETURN]\<rparr>]\<rparr>
                     in (case deduct_fee (nValue out) tx of
                           Inl e \<Rightarrow> (Inl e, rest)
                         | Inr tx' \<Rightarrow> (rehash hash256 tx', rest)))))"

subsection \<open>The node interface\<close>

text \<open>
  The node under test is outside the script. It is a parameter \<open>rpc\<close>: a request and a
  node state give a response and the next node state. Hashes and transaction ids, which
  the node prints as hexadecimal text, are the numbers the text denotes, so
  \<^verbatim>\<open>int(h, 16)\<close> and \<^verbatim>\<open>format(x, 'x')\<close> are the identity. \<open>SubmitBlock\<close> is the delivery
  of a yielded block by the comparison tool; its response is what the node made of it.
\<close>

datatype request =
    Generate int
  | ListUnspent
  | SignRawTransaction rawtx
  | SendRawTransaction rawtx
  | GetRawMempool
  | SetMockTime int
  | GetBlockchainInfo
  | GetBestBlockHash
  | GetBlockHeader int
  | InvalidateBlock int
  | SubmitBlock CBlock

datatype outcome = BlockAccepted | BlockRejected int string

datatype response =
    RNull
  | RError int string
  | RUnspent "utxo list"
  | RSigned rawtx
  | RTxid int
  | RMempool "int list"
  | RBlockchainInfo int
  | RBestBlockHash int
  | RBlockHeader int
  | ROutcome outcome

datatype RejectResult = RejectResult int string

datatype expected = Expect bool | ExpectReject RejectResult

datatype TestInstance = TestInstance "(CBlock \<times> expected) list"

subsection \<open>The state of a run\<close>

text \<open>
  A run threads the node's state, the log of every exchange with the node, the list of
  test instances the generator has yielded, and the list \<^verbatim>\<open>spendable_checkdatasigs\<close>.
  A step returns a value or an exception, and the state in both cases.
\<close>

record 'n harness =
  node :: 'n
  trace :: "(request \<times> response) list"
  yielded :: "TestInstance list"
  spendable_checkdatasigs :: "PreviousSpendableOutput list"

type_synonym ('n, 'a) run = "'n harness \<Rightarrow> (error + 'a) \<times> 'n harness"

definition ret :: "'a \<Rightarrow> ('n, 'a) run" where
  "ret x s = (Inr x, s)"

definition raise :: "error \<Rightarrow> ('n, 'a) run" where
  "raise e s = (Inl e, s)"

definition bnd :: "('n, 'a) run \<Rightarrow> ('a \<Rightarrow> ('n, 'b) run) \<Rightarrow> ('n, 'b) run" where
  "bnd m f s = (case m s of (Inl e, s') \<Rightarrow> (Inl e, s') | (Inr x, s') \<Rightarrow> f x s')"

definition lift :: "error + 'a \<Rightarrow> ('n, 'a) run" where
  "lift r = (case r of Inl e \<Rightarrow> raise e | Inr x \<Rightarrow> ret x)"

definition py_assert :: "bool \<Rightarrow> ('n, unit) run" where
  "py_assert c = (if c then ret () else raise AssertionError)"

fun for_each :: "'a list \<Rightarrow> ('a \<Rightarrow> ('n, unit) run) \<Rightarrow> ('n, unit) run" where
  "for_each [] f = ret ()"
| "for_each (x # xs) f = bnd (f x) (\<lambda>_. for_each xs f)"

text \<open>One exchange with the node, logged.\<close>

definition send :: "(request \<Rightarrow> 'n \<Rightarrow> response \<times> 'n) \<Rightarrow> request \<Rightarrow> ('n, response) run" where
  "send rpc req s =
     (let (resp, n') = rpc req (node s)
      in (Inr resp, s\<lparr>node := n', trace := trace s @ [(req, resp)]\<rparr>))"

text \<open>An RPC call: an error response is raised as \<open>JSONRPCException\<close>.\<close>

definition call :: "(request \<Rightarrow> 'n \<Rightarrow> response \<times> 'n) \<Rightarrow> request \<Rightarrow> ('n, response) run" where
  "call rpc req =
     bnd (send rpc req) (\<lambda>resp.
       case resp of RError c m \<Rightarrow> raise (JSONRPCException c m) | _ \<Rightarrow> ret resp)"

definition listunspent :: "(request \<Rightarrow> 'n \<Rightarrow> response \<times> 'n) \<Rightarrow> ('n, utxo list) run" where
  "listunspent rpc =
     bnd (call rpc ListUnspent) (\<lambda>resp. case resp of RUnspent us \<Rightarrow> ret us | _ \<Rightarrow> raise TypeError)"

definition signrawtransaction ::
  "(request \<Rightarrow> 'n \<Rightarrow> response \<times> 'n) \<Rightarrow> rawtx \<Rightarrow> ('n, rawtx) run" where
  "signrawtransaction rpc raw =
     bnd (call rpc (SignRawTransaction raw)) (\<lambda>resp.
       case resp of RSigned signed \<Rightarrow> ret signed | _ \<Rightarrow> raise TypeError)"

definition sendrawtransaction ::
  "(request \<Rightarrow> 'n \<Rightarrow> response \<times> 'n) \<Rightarrow> rawtx \<Rightarrow> ('n, int) run" where
  "sendrawtransaction rpc raw =
     bnd (call rpc (SendRawTransaction raw)) (\<lambda>resp.
       case resp of RTxid t \<Rightarrow> ret t | _ \<Rightarrow> raise TypeError)"

definition getrawmempool :: "(request \<Rightarrow> 'n \<Rightarrow> response \<times> 'n) \<Rightarrow> ('n, int list) run" where
  "getrawmempool rpc =
     bnd (call rpc GetRawMempool) (\<lambda>resp. case resp of RMempool ts \<Rightarrow> ret ts | _ \<Rightarrow> raise TypeError)"

definition getblockcount :: "(request \<Rightarrow> 'n \<Rightarrow> response \<times> 'n) \<Rightarrow> ('n, int) run" where
  "getblockcount rpc =
     bnd (call rpc GetBlockchainInfo) (\<lambda>resp.
       case resp of RBlockchainInfo h \<Rightarrow> ret h | _ \<Rightarrow> raise TypeError)"

definition getbestblockhash :: "(request \<Rightarrow> 'n \<Rightarrow> response \<times> 'n) \<Rightarrow> ('n, int) run" where
  "getbestblockhash rpc =
     bnd (call rpc GetBestBlockHash) (\<lambda>resp.
       case resp of RBestBlockHash h \<Rightarrow> ret h | _ \<Rightarrow> raise TypeError)"

definition mediantime :: "(request \<Rightarrow> 'n \<Rightarrow> response \<times> 'n) \<Rightarrow> int \<Rightarrow> ('n, int) run" where
  "mediantime rpc h =
     bnd (call rpc (GetBlockHeader h)) (\<lambda>resp.
       case resp of RBlockHeader t \<Rightarrow> ret t | _ \<Rightarrow> raise TypeError)"

subsection \<open>The test framework\<close>

text \<open>
  Modelled from the spec: the helpers of \<^verbatim>\<open>test_framework\<close> that the script calls are
  not part of it. The hash functions, the coinbase constructor, the proof-of-work target
  of the test network and the polling rate of \<^verbatim>\<open>waitFor\<close> are parameters; what the
  helpers do with them follows the spec.
\<close>

record framework =
  hash256 :: "rawtx \<Rightarrow> int"
  merkle :: "int list \<Rightarrow> int"
  header_hash :: "int \<Rightarrow> int \<Rightarrow> int \<Rightarrow> int \<Rightarrow> int"
  target :: int
  create_coinbase :: "int \<Rightarrow> CTransaction"
  polls_per_second :: nat

text \<open>
  Modelled from the spec: a transaction's identity is the hash of its serialisation,
  computed lazily and cached.
\<close>

definition calc_sha256 :: "framework \<Rightarrow> CTransaction \<Rightarrow> error + CTransaction" where
  "calc_sha256 fw tx = (case sha256 tx of Some h \<Rightarrow> Inr tx | None \<Rightarrow> rehash (hash256 fw) tx)"

fun calc_all :: "framework \<Rightarrow> CTransaction list \<Rightarrow> error + CTransaction list" where
  "calc_all fw [] = Inr []"
| "calc_all fw (tx # txs) =
     (case calc_sha256 fw tx of
        Inl e \<Rightarrow> Inl e
      | Inr tx' \<Rightarrow> (case calc_all fw txs of Inl e \<Rightarrow> Inl e | Inr txs' \<Rightarrow> Inr (tx' # txs')))"

text \<open>
  Modelled from the spec: the Merkle root is the hash of all transaction identities, the
  coinbase being element zero. The result is the block with the identities cached and
  the root stored, as \<^verbatim>\<open>block.hashMerkleRoot = block.calc_merkle_root()\<close> leaves it.
\<close>

definition merkle_root_of :: "framework \<Rightarrow> CTransaction list \<Rightarrow> int" where
  "merkle_root_of fw txs = merkle fw (map (\<lambda>tx. case sha256 tx of Some h \<Rightarrow> h | None \<Rightarrow> 0) txs)"

definition set_merkle_root :: "framework \<Rightarrow> CBlock \<Rightarrow> error + CBlock" where
  "set_merkle_root fw block =
     (case calc_all fw (vtx block) of
        Inl e \<Rightarrow> Inl e
      | Inr txs \<Rightarrow> Inr (block\<lparr>vtx := txs, hashMerkleRoot := merkle_root_of fw txs\<rparr>))"

definition block_hash :: "framework \<Rightarrow> CBlock \<Rightarrow> int" where
  "block_hash fw block =
     header_hash fw (hashPrevBlock block) (hashMerkleRoot block) (nTime block) (nNonce block)"

text \<open>
  Modelled from the spec: the proof-of-work search tries nonce after nonce until the
  block's identity meets the target, and returns the solved block. The search need not
  end, so it is a partial function: \<open>None\<close> is the search that never returns.
\<close>

partial_function (option) solve :: "framework \<Rightarrow> CBlock \<Rightarrow> CBlock option" where
  "solve fw block =
     (if block_hash fw block \<le> target fw
      then Some (block\<lparr>block_sha256 := Some (block_hash fw block)\<rparr>)
      else solve fw (block\<lparr>nNonce := nNonce block + 1\<rparr>))"

declare solve.simps [code]

definition solve_run :: "framework \<Rightarrow> CBlock \<Rightarrow> ('n, CBlock) run" where
  "solve_run fw block = (case solve fw block of None \<Rightarrow> raise Diverged | Some b \<Rightarrow> ret b)"

text \<open>
  Modelled from the spec: \<^verbatim>\<open>create_block\<close> assembles a block with the previous hash,
  the timestamp and the coinbase, and computes its Merkle root.
\<close>

definition create_block :: "framework \<Rightarrow> int \<Rightarrow> CTransaction \<Rightarrow> int \<Rightarrow> error + CBlock" where
  "create_block fw hashprev coinbase block_time =
     set_merkle_root fw
       \<lparr>hashPrevBlock = hashprev, nTime = block_time, hashMerkleRoot = 0, nNonce = 0,
        vtx = [coinbase], block_sha256 = None\<rparr>"

text \<open>
  Modelled from the spec: \<^verbatim>\<open>assert_raises_rpc_error\<close> makes the call and passes only if
  the node answers with exactly the given error code and message.
\<close>

definition assert_raises_rpc_error ::
  "int \<Rightarrow> string \<Rightarrow> (request \<Rightarrow> 'n \<Rightarrow> response \<times> 'n) \<Rightarrow> request \<Rightarrow> ('n, unit) run" where
  "assert_raises_rpc_error code msg rpc req =
     bnd (send rpc req) (\<lambda>resp.
       case resp of
         RError c m \<Rightarrow> py_assert (c = code \<and> m = msg)
       | _ \<Rightarrow> raise AssertionError)"

definition assert_equal :: "'a \<Rightarrow> 'a \<Rightarrow> ('n, unit) run" where
  "assert_equal a b = py_assert (a = b)"

text \<open>
  Modelled from the spec: the comparison tool hands each block of a yielded test instance
  to the node and compares what the node made of it with the expectation: \<^verbatim>\<open>True\<close> is
  acceptance, \<^verbatim>\<open>False\<close> any rejection, a \<^verbatim>\<open>RejectResult\<close> a rejection with exactly that
  code and reason. A mismatch fails the run.
\<close>

fun matches :: "expected \<Rightarrow> outcome \<Rightarrow> bool" where
  "matches (Expect True) BlockAccepted = True"
| "matches (Expect False) (BlockRejected c m) = True"
| "matches (ExpectReject (RejectResult c m)) (BlockRejected c' m') = (c' = c \<and> m' = m)"
| "matches _ _ = False"

definition submit ::
  "(request \<Rightarrow> 'n \<Rightarrow> response \<times> 'n) \<Rightarrow> CBlock \<times> expected \<Rightarrow> ('n, unit) run" where
  "submit rpc be =
     bnd (send rpc (SubmitBlock (fst be))) (\<lambda>resp.
       case resp of
         ROutcome out \<Rightarrow> py_assert (matches (snd be) out)
       | _ \<Rightarrow> raise AssertionError)"

definition yield :: "(request \<Rightarrow> 'n \<Rightarrow> response \<times> 'n) \<Rightarrow> TestInstance \<Rightarrow> ('n, unit) run" where
  "yield rpc inst =
     bnd (\<lambda>s. (Inr (), s\<lparr>yielded := yielded s @ [inst]\<rparr>)) (\<lambda>_.
       case inst of TestInstance bes \<Rightarrow> for_each bes (submit rpc))"

text \<open>
  Modelled from the spec: \<^verbatim>\<open>waitFor\<close> polls the condition at a fixed interval until it
  holds or the timeout (in seconds) has passed; running out of time is
  \<open>TimeoutException\<close>. Time is counted in polls: the first at once, then
  \<open>polls_per_second\<close> of them in every second.
\<close>

fun wait_loop :: "nat \<Rightarrow> ('n, bool) run \<Rightarrow> ('n, unit) run" where
  "wait_loop 0 cond = raise TimeoutException"
| "wait_loop (Suc k) cond = bnd cond (\<lambda>ok. if ok then ret () else wait_loop k cond)"

definition waitFor :: "framework \<Rightarrow> nat \<Rightarrow> ('n, bool) run \<Rightarrow> ('n, unit) run" where
  "waitFor fw timeout cond = wait_loop (Suc (timeout * polls_per_second fw)) cond"

subsection \<open>The script\<close>

definition create_checkdatasig_tx ::
  "(request \<Rightarrow> 'n \<Rightarrow> response \<times> 'n) \<Rightarrow> int \<Rightarrow> ('n, rawtx) run" where
  "create_checkdatasig_tx rpc count =
     bnd (listunspent rpc) (\<lambda>utxos.
       case utxos of
         [] \<Rightarrow> raise AssertionError
       | u # _ \<Rightarrow>
           bnd (lift (checkdatasig_tx u count)) (\<lambda>tx.
           bnd (lift (ToHex tx)) (\<lambda>tx_hex.
           signrawtransaction rpc tx_hex)))"

definition spend_checkdatasig_run :: "framework \<Rightarrow> int \<Rightarrow> ('n, CTransaction) run" where
  "spend_checkdatasig_run fw r s =
     (let (res, rest) = spend_checkdatasig (hash256 fw) r (spendable_checkdatasigs s)
      in (res, s\<lparr>spendable_checkdatasigs := rest\<rparr>))"

definition accepted :: "CBlock \<Rightarrow> TestInstance" where
  "accepted tip = TestInstance [(tip, Expect True)]"

definition rejected :: "CBlock \<Rightarrow> RejectResult option \<Rightarrow> TestInstance" where
  "rejected tip reject =
     (case reject of
        None \<Rightarrow> TestInstance [(tip, Expect False)]
      | Some rr \<Rightarrow> TestInstance [(tip, ExpectReject rr)])"

definition next_block ::
  "framework \<Rightarrow> (request \<Rightarrow> 'n \<Rightarrow> response \<times> 'n) \<Rightarrow> int \<Rightarrow> ('n, CBlock) run" where
  "next_block fw rpc block_time =
     bnd (getblockcount rpc) (\<lambda>height.
     bnd (lift (rehash (hash256 fw) (create_coinbase fw height))) (\<lambda>coinbase.
     bnd (getbestblockhash rpc) (\<lambda>best.
     bnd (lift (create_block fw best coinbase block_time)) (\<lambda>block.
     solve_run fw block))))"

definition add_tx :: "framework \<Rightarrow> CBlock \<Rightarrow> CTransaction \<Rightarrow> ('n, CBlock) run" where
  "add_tx fw block tx =
     bnd (lift (set_merkle_root fw (block\<lparr>vtx := vtx block @ [tx]\<rparr>))) (\<lambda>block'.
     solve_run fw block')"

definition in_mempool :: "(request \<Rightarrow> 'n \<Rightarrow> response \<times> 'n) \<Rightarrow> int \<Rightarrow> ('n, bool) run" where
  "in_mempool rpc txid = bnd (getrawmempool rpc) (\<lambda>pool. ret (txid \<in> set pool))"

text \<open>
  \<^verbatim>\<open>[PreviousSpendableOutput(tx, i) for i in range(len(tx.vout))]\<close>
\<close>

definition registered :: "CTransaction \<Rightarrow> PreviousSpendableOutput list" where
  "registered tx = map (\<lambda>i. \<lparr>pso_tx = tx, pso_n = int i\<rparr>) [0 ..< length (vout tx)]"

definition register_outputs :: "CTransaction \<Rightarrow> ('n, unit) run" where
  "register_outputs tx s = (Inr (), s\<lparr>spendable_checkdatasigs := registered tx\<rparr>)"

definition get_tests ::
  "framework \<Rightarrow> (request \<Rightarrow> 'n \<Rightarrow> response \<times> 'n) \<Rightarrow> int \<Rightarrow> ('n, unit) run" where
  "get_tests fw rpc r =
     bnd (call rpc (Generate 125)) (\<lambda>_.
     bnd (create_checkdatasig_tx rpc 25) (\<lambda>tx_hex.
     bnd (sendrawtransaction rpc tx_hex) (\<lambda>txid.
     bnd (in_mempool rpc txid) (\<lambda>present.
     bnd (py_assert present) (\<lambda>_.
     bnd (call rpc (Generate 1)) (\<lambda>_.
     bnd (in_mempool rpc txid) (\<lambda>present.
     bnd (py_assert (\<not> present)) (\<lambda>_.
     bnd (lift (rehash (hash256 fw) (FromHex tx_hex))) (\<lambda>tx.
     bnd (register_outputs tx) (\<lambda>_.
     bnd (spend_checkdatasig_run fw r) (\<lambda>tx0.
     bnd (lift (ToHex tx0)) (\<lambda>tx0_hex.
     bnd (assert_raises_rpc_error (- 26) RPC_BAD_OPCODE_ERROR rpc (SendRawTransaction tx0_hex)) (\<lambda>_.
     bnd (call rpc (SetMockTime NOV152018_START_TIME)) (\<lambda>_.
     bnd (for_each (map int [0 ..< 6]) (\<lambda>i.
            bnd (next_block fw rpc (NOV152018_START_TIME + i - 1)) (\<lambda>b.
            yield rpc (accepted b)))) (\<lambda>_.
     bnd (getbestblockhash rpc) (\<lambda>best.
     bnd (mediantime rpc best) (\<lambda>mtp.
     bnd (assert_equal mtp (NOV152018_START_TIME - 1)) (\<lambda>_.
     bnd (assert_raises_rpc_error (- 26) RPC_BAD_OPCODE_ERROR rpc (SendRawTransaction tx0_hex)) (\<lambda>_.
     bnd (next_block fw rpc (NOV152018_START_TIME + 6)) (\<lambda>b.
     bnd (add_tx fw b tx0) (\<lambda>b.
     bnd (yield rpc (rejected b (Some (RejectResult 16 ''bad-blk-signatures'')))) (\<lambda>_.
     bnd (next_block fw rpc (NOV152018_START_TIME + 6)) (\<lambda>fork_block.
     bnd (yield rpc (accepted fork_block)) (\<lambda>_.
     bnd (getbestblockhash rpc) (\<lambda>best.
     bnd (mediantime rpc best) (\<lambda>mtp.
     bnd (assert_equal mtp NOV152018_START_TIME) (\<lambda>_.
     bnd (sendrawtransaction rpc tx0_hex) (\<lambda>tx0id.
     bnd (in_mempool rpc tx0id) (\<lambda>present.
     bnd (py_assert present) (\<lambda>_.
     bnd (next_block fw rpc (NOV152018_START_TIME + 7)) (\<lambda>b.
     bnd (add_tx fw b tx0) (\<lambda>nov152018forkblock.
     bnd (yield rpc (accepted nov152018forkblock)) (\<lambda>_.
     bnd (in_mempool rpc tx0id) (\<lambda>present.
     bnd (py_assert (\<not> present)) (\<lambda>_.
     bnd (lift (case block_sha256 nov152018forkblock of None \<Rightarrow> Inl TypeError | Some h \<Rightarrow> Inr h)) (\<lambda>h.
     bnd (call rpc (InvalidateBlock h)) (\<lambda>_.
     bnd (waitFor fw 3 (in_mempool rpc tx0id)) (\<lambda>_.
     bnd (lift (case block_sha256 fork_block of None \<Rightarrow> Inl TypeError | Some h \<Rightarrow> Inr h)) (\<lambda>h.
     bnd (call rpc (InvalidateBlock h)) (\<lambda>_.
     waitFor fw 3 (bnd (in_mempool rpc tx0id) (\<lambda>present. ret (\<not> present)))
     ))))))))))))))))))))))))))))))))))))))))"

subsection \<open>What a run leaves behind\<close>

text \<open>
  Predicates used to state what a run has done: \<open>frame\<close> says a step left the yielded
  instances and the spendable outputs alone; \<open>pow_ok\<close> and \<open>merkle_ok\<close> say a block's
  cached identity meets the target and its Merkle root is the root of its transaction
  list; \<open>built\<close> and \<open>extended\<close> describe the results of \<^verbatim>\<open>next_block\<close> and
  \<^verbatim>\<open>add_tx\<close>; \<open>poll\<close> is one look at the pool and \<open>round_events\<close> the three exchanges
  of one plain block.
\<close>

definition frame :: "'n harness \<Rightarrow> 'n harness \<Rightarrow> bool" where
  "frame s s' = (yielded s' = yielded s \<and> spendable_checkdatasigs s' = spendable_checkdatasigs s)"

definition pow_ok :: "framework \<Rightarrow> CBlock \<Rightarrow> bool" where
  "pow_ok fw b = (block_sha256 b = Some (block_hash fw b) \<and> block_hash fw b \<le> target fw)"

definition identity_ok :: "framework \<Rightarrow> CTransaction \<Rightarrow> bool" where
  "identity_ok fw tx = (case ToHex tx of Inl e \<Rightarrow> False | Inr raw \<Rightarrow> sha256 tx = Some (hash256 fw raw))"

definition merkle_ok :: "framework \<Rightarrow> CBlock \<Rightarrow> bool" where
  "merkle_ok fw b =
     (list_all (\<lambda>tx. sha256 tx \<noteq> None) (vtx b) \<and> hashMerkleRoot b = merkle_root_of fw (vtx b))"

definition built :: "framework \<Rightarrow> int \<Rightarrow> int \<Rightarrow> int \<Rightarrow> CBlock \<Rightarrow> bool" where
  "built fw height best t b =
     (\<exists>cb blk. rehash (hash256 fw) (create_coinbase fw height) = Inr cb
        \<and> create_block fw best cb t = Inr blk \<and> solve fw blk = Some b)"

definition extended :: "framework \<Rightarrow> CBlock \<Rightarrow> CTransaction \<Rightarrow> CBlock \<Rightarrow> bool" where
  "extended fw b tx b' =
     (\<exists>blk. set_merkle_root fw (b\<lparr>vtx := vtx b @ [tx]\<rparr>) = Inr blk \<and> solve fw blk = Some b')"

definition poll :: "int list \<Rightarrow> request \<times> response" where
  "poll pool = (GetRawMempool, RMempool pool)"

definition round_events :: "int \<times> int \<times> CBlock \<Rightarrow> (request \<times> response) list" where
  "round_events hpb =
     (case hpb of (h, p, b) \<Rightarrow>
        [(GetBlockchainInfo, RBlockchainInfo h), (GetBestBlockHash, RBestBlockHash p),
         (SubmitBlock b, ROutcome BlockAccepted)])"

subsection \<open>Sequences of spends\<close>

text \<open>
  \<open>outpoint_of\<close> is the outpoint a listed entry stands for, \<open>spent_by\<close> the outpoints
  a transaction spends, and \<open>spend_many\<close> a sequence of calls of
  \<^verbatim>\<open>spend_checkdatasig\<close>, one per random value, up to the first that raises.
  \<open>demo_funding\<close> and \<open>demo_spendable\<close> are a small funding transaction and its
  registered outputs.
\<close>

definition outpoint_of :: "PreviousSpendableOutput \<Rightarrow> int option \<times> int" where
  "outpoint_of p = (sha256 (pso_tx p), pso_n p)"

definition spent_by :: "CTransaction \<Rightarrow> (int option \<times> int) list" where
  "spent_by tx = map (\<lambda>i. (Some (op_hash (prevout i)), op_n (prevout i))) (vin tx)"

fun spend_many ::
  "(rawtx \<Rightarrow> int) \<Rightarrow> int list \<Rightarrow> PreviousSpendableOutput list \<Rightarrow>
     CTransaction list \<times> PreviousSpendableOutput list" where
  "spend_many H [] spendable = ([], spendable)"
| "spend_many H (r # rs) spendable =
     (case spend_checkdatasig H r spendable of
        (Inl e, rest) \<Rightarrow> ([], rest)
      | (Inr tx, rest) \<Rightarrow>
          (case spend_many H rs rest of (txs, rest') \<Rightarrow> (tx # txs, rest')))"

definition demo_funding :: CTransaction where
  "demo_funding =
     \<lparr>vin = [],
      vout = [\<lparr>nValue = PyInt 199999000, scriptPubKey = checkdatasig_script\<rparr>,
              \<lparr>nValue = PyInt 200000000, scriptPubKey = checkdatasig_script\<rparr>,
              \<lparr>nValue = PyInt 200000000, scriptPubKey = checkdatasig_script\<rparr>],
      sha256 = Some 77\<rparr>"

definition demo_spendable :: "PreviousSpendableOutput list" where
  "demo_spendable = registered demo_funding"

subsection \<open>The scenario of the script\<close>

text \<open>
  The values of the scripted scenario: the unspent output of 50 coins that
  \<^verbatim>\<open>create_checkdatasig_tx(25)\<close> splits, the funding transaction before signing, its
  serialisation, the registered funding transaction and the spending transaction built
  from it, under a hash function that counts outputs.
\<close>

definition scenario_utxo :: utxo where
  "scenario_utxo = \<lparr>u_txid = 7, u_vout = 0, u_amount = 50\<rparr>"

definition scenario_hash :: "rawtx \<Rightarrow> int" where
  "scenario_hash raw = int (length (raw_vout raw))"

definition scenario_outputs :: "CTxOut list" where
  "scenario_outputs =
     \<lparr>nValue = PyInt 199999000, scriptPubKey = checkdatasig_script\<rparr> #
     replicate 24 \<lparr>nValue = PyInt 200000000, scriptPubKey = checkdatasig_script\<rparr>"

definition scenario_ftx :: CTransaction where
  "scenario_ftx =
     \<lparr>vin = [\<lparr>prevout = \<lparr>op_hash = 7, op_n = 0\<rparr>, scriptSig = []\<rparr>],
      vout = scenario_outputs, sha256 = None\<rparr>"

definition scenario_raw :: rawtx where
  "scenario_raw =
     RawTx [\<lparr>prevout = \<lparr>op_hash = 7, op_n = 0\<rparr>, scriptSig = []\<rparr>]
       ((199999000, checkdatasig_script) # replicate 24 (200000000, checkdatasig_script))"

definition scenario_tx :: CTransaction where
  "scenario_tx = scenario_ftx\<lparr>sha256 := Some 25\<rparr>"

definition scenario_spend :: CTransaction where
  "scenario_spend =
     \<lparr>vin = [\<lparr>prevout = \<lparr>op_hash = 25, op_n = 24\<rparr>, scriptSig = []\<rparr>],
      vout = [\<lparr>nValue = PyInt 199999000, scriptPubKey = []\<rparr>,
              \<lparr>nValue = PyInt 0, scriptPubKey = [Num 12345, Op OP_RETURN]\<rparr>],
      sha256 = Some 2\<rparr>"

subsection \<open>A scripted node\<close>

text \<open>
  A node that answers from a script: its state is the list of answers it has still to
  give, whatever the request. \<open>scripted\<close> is the state of a run that starts against it.
\<close>

definition replay :: "request \<Rightarrow> response list \<Rightarrow> response \<times> response list" where
  "replay req script = (case script of [] \<Rightarrow> (RNull, []) | r # rest \<Rightarrow> (r, rest))"

definition scripted :: "response list \<Rightarrow> response list harness" where
  "scripted script = \<lparr>node = script, trace = [], yielded = [], spendable_checkdatasigs = []\<rparr>"

section \<open>Properties\<close>

subsection \<open>Steps of a passing run\<close>

lemma bndE:
  assumes "bnd m f s = (Inr y, s')"
  obtains x s1 where "m s = (Inr x, s1)" and "f x s1 = (Inr y, s')"
  using assms by (auto simp: bnd_def split: prod.splits sum.splits)

lemma bnd_okD:
  "bnd m f s = (Inr y, s') \<Longrightarrow> \<exists>x s1. m s = (Inr x, s1) \<and> f x s1 = (Inr y, s')"
  by (auto simp: bnd_def split: prod.splits sum.splits)

lemma ret_ok: "ret x s = (Inr y, s') \<Longrightarrow> y = x \<and> s' = s"
  by (simp add: ret_def)

lemma raise_ok: "raise e s = (Inr y, s') \<Longrightarrow> False"
  by (simp add: raise_def)

lemma lift_ok: "lift r s = (Inr x, s') \<Longrightarrow> r = Inr x \<and> s' = s"
  by (auto simp: lift_def ret_def raise_def split: sum.splits)

lemma py_assert_ok: "py_assert c s = (Inr x, s') \<Longrightarrow> c \<and> s' = s"
  by (auto simp: py_assert_def ret_def raise_def split: if_splits)

lemma send_ok:
  "send rpc req s = (Inr resp, s') \<Longrightarrow>
     trace s' = trace s @ [(req, resp)] \<and> frame s s'"
  by (auto simp: send_def frame_def split: prod.splits)

lemma call_ok:
  "call rpc req s = (Inr resp, s') \<Longrightarrow>
     trace s' = trace s @ [(req, resp)] \<and> frame s s'"
  unfolding call_def
  by (auto dest!: bnd_okD send_ok ret_ok simp: raise_def split: response.splits)

lemma listunspent_ok:
  "listunspent rpc s = (Inr us, s') \<Longrightarrow>
     trace s' = trace s @ [(ListUnspent, RUnspent us)] \<and> frame s s'"
  unfolding listunspent_def
  by (auto dest!: bnd_okD call_ok ret_ok simp: raise_def split: response.splits)

lemma signrawtransaction_ok:
  "signrawtransaction rpc raw s = (Inr signed, s') \<Longrightarrow>
     trace s' = trace s @ [(SignRawTransaction raw, RSigned signed)] \<and> frame s s'"
  unfolding signrawtransaction_def
  by (auto dest!: bnd_okD call_ok ret_ok simp: raise_def split: response.splits)

lemma sendrawtransaction_ok:
  "sendrawtransaction rpc raw s = (Inr t, s') \<Longrightarrow>
     trace s' = trace s @ [(SendRawTransaction raw, RTxid t)] \<and> frame s s'"
  unfolding sendrawtransaction_def
  by (auto dest!: bnd_okD call_ok ret_ok simp: raise_def split: response.splits)

lemma getrawmempool_ok:
  "getrawmempool rpc s = (Inr pool, s') \<Longrightarrow>
     trace s' = trace s @ [(GetRawMempool, RMempool pool)] \<and> frame s s'"
  unfolding getrawmempool_def
  by (auto dest!: bnd_okD call_ok ret_ok simp: raise_def split: response.splits)

lemma getblockcount_ok:
  "getblockcount rpc s = (Inr h, s') \<Longrightarrow>
     trace s' = trace s @ [(GetBlockchainInfo, RBlockchainInfo h)] \<and> frame s s'"
  unfolding getblockcount_def
  by (auto dest!: bnd_okD call_ok ret_ok simp: raise_def split: response.splits)

lemma getbestblockhash_ok:
  "getbestblockhash rpc s = (Inr h, s') \<Longrightarrow>
     trace s' = trace s @ [(GetBestBlockHash, RBestBlockHash h)] \<and> frame s s'"
  unfolding getbestblockhash_def
  by (auto dest!: bnd_okD call_ok ret_ok simp: raise_def split: response.splits)

lemma mediantime_ok:
  "mediantime rpc h s = (Inr t, s') \<Longrightarrow>
     trace s' = trace s @ [(GetBlockHeader h, RBlockHeader t)] \<and> frame s s'"
  unfolding mediantime_def
  by (auto dest!: bnd_okD call_ok ret_ok simp: raise_def split: response.splits)

lemma in_mempool_ok:
  "in_mempool rpc t s = (Inr present, s') \<Longrightarrow>
     \<exists>pool. trace s' = trace s @ [(GetRawMempool, RMempool pool)] \<and> present = (t \<in> set pool) \<and> frame s s'"
  unfolding in_mempool_def
  by (auto dest!: bnd_okD getrawmempool_ok ret_ok)

lemma assert_raises_rpc_error_ok:
  "assert_raises_rpc_error code msg rpc req s = (Inr x, s') \<Longrightarrow>
     trace s' = trace s @ [(req, RError code msg)] \<and> frame s s'"
  unfolding assert_raises_rpc_error_def
  by (auto dest!: bnd_okD send_ok py_assert_ok simp: raise_def split: response.splits)

lemma create_checkdatasig_tx_ok:
  "create_checkdatasig_tx rpc count s = (Inr tx_hex, s') \<Longrightarrow>
     \<exists>u us tx raw.
       trace s' = trace s @ [(ListUnspent, RUnspent (u # us)), (SignRawTransaction raw, RSigned tx_hex)]
       \<and> checkdatasig_tx u count = Inr tx \<and> ToHex tx = Inr raw \<and> frame s s'"
  unfolding create_checkdatasig_tx_def
  by (auto dest!: bnd_okD listunspent_ok signrawtransaction_ok lift_ok simp: raise_def frame_def split: list.splits)

lemma solve_some:
  assumes "solve fw blk = Some b"
  shows "pow_ok fw b \<and> nNonce blk \<le> nNonce b
     \<and> b = blk\<lparr>nNonce := nNonce b, block_sha256 := block_sha256 b\<rparr>"
proof (rule solve.raw_induct
    [where P = "\<lambda>fw blk b. pow_ok fw b \<and> nNonce blk \<le> nNonce b
                  \<and> b = blk\<lparr>nNonce := nNonce b, block_sha256 := block_sha256 b\<rparr>", OF _ assms])
  fix S :: "framework \<Rightarrow> CBlock \<Rightarrow> CBlock option" and fw blk b
  assume IH: "\<And>fw blk b. S fw blk = Some b \<Longrightarrow>
                pow_ok fw b \<and> nNonce blk \<le> nNonce b
                \<and> b = blk\<lparr>nNonce := nNonce b, block_sha256 := block_sha256 b\<rparr>"
    and step: "(if block_hash fw blk \<le> target fw
                then Some (blk\<lparr>block_sha256 := Some (block_hash fw blk)\<rparr>)
                else S fw (blk\<lparr>nNonce := nNonce blk + 1\<rparr>)) = Some b"
  show "pow_ok fw b \<and> nNonce blk \<le> nNonce b
          \<and> b = blk\<lparr>nNonce := nNonce b, block_sha256 := block_sha256 b\<rparr>"
  proof (cases "block_hash fw blk \<le> target fw")
    case True
    with step show ?thesis
      by (auto simp: pow_ok_def block_hash_def)
  next
    case False
    with step have "S fw (blk\<lparr>nNonce := nNonce blk + 1\<rparr>) = Some b" by simp
    from IH[OF this] show ?thesis by auto
  qed
qed

lemma solve_returns:
  "0 \<le> k \<Longrightarrow> block_hash fw (blk\<lparr>nNonce := nNonce blk + k\<rparr>) \<le> target fw \<Longrightarrow>
     \<exists>b. solve fw blk = Some b"
proof (induction "nat k" arbitrary: k blk)
  case 0
  then have "k = 0" by simp
  with 0 show ?case by (subst solve.simps) simp
next
  case (Suc j)
  show ?case
  proof (cases "block_hash fw blk \<le> target fw")
    case True
    then show ?thesis by (subst solve.simps) simp
  next
    case False
    from Suc have j: "j = nat (k - 1)" "0 \<le> k - 1" by auto
    have "block_hash fw (blk\<lparr>nNonce := nNonce blk + 1\<rparr>\<lparr>nNonce := nNonce (blk\<lparr>nNonce := nNonce blk + 1\<rparr>) + (k - 1)\<rparr>) \<le> target fw"
      using Suc.prems(2) by (simp add: block_hash_def)
    from Suc.hyps(1)[OF j(1) j(2) this] obtain b where "solve fw (blk\<lparr>nNonce := nNonce blk + 1\<rparr>) = Some b" ..
    with False show ?thesis by (subst solve.simps) simp
  qed
qed

lemma solve_run_ok: "solve_run fw blk s = (Inr b, s') \<Longrightarrow> solve fw blk = Some b \<and> s' = s"
  by (auto simp: solve_run_def ret_def raise_def split: option.splits)

lemma next_block_ok:
  "next_block fw rpc t s = (Inr b, s') \<Longrightarrow>
     \<exists>height best.
       trace s' = trace s @ [(GetBlockchainInfo, RBlockchainInfo height), (GetBestBlockHash, RBestBlockHash best)]
       \<and> built fw height best t b \<and> frame s s'"
  unfolding next_block_def built_def
  by (auto dest!: bnd_okD getblockcount_ok getbestblockhash_ok lift_ok solve_run_ok simp: frame_def)

lemma add_tx_ok:
  "add_tx fw b tx s = (Inr b', s') \<Longrightarrow> extended fw b tx b' \<and> s' = s"
  unfolding add_tx_def extended_def
  by (auto dest!: bnd_okD lift_ok solve_run_ok)

lemma for_each_single_ok:
  "for_each [x] f s = (Inr u, s') \<Longrightarrow> f x s = (Inr (), s')"
  by (auto dest!: bnd_okD ret_ok)

lemma submit_ok:
  "submit rpc (b, e) s = (Inr u, s') \<Longrightarrow>
     \<exists>out. trace s' = trace s @ [(SubmitBlock b, ROutcome out)] \<and> matches e out \<and> frame s s'"
  unfolding submit_def
  by (auto dest!: bnd_okD send_ok py_assert_ok simp: raise_def split: response.splits)

lemma yield_accepted_ok:
  "yield rpc (accepted b) s = (Inr u, s') \<Longrightarrow>
     trace s' = trace s @ [(SubmitBlock b, ROutcome BlockAccepted)]
     \<and> yielded s' = yielded s @ [accepted b]
     \<and> spendable_checkdatasigs s' = spendable_checkdatasigs s"
  unfolding yield_def accepted_def
  by (auto dest!: bnd_okD for_each_single_ok submit_ok simp: frame_def ret_def elim!: matches.elims)

lemma yield_rejected_ok:
  "yield rpc (rejected b (Some (RejectResult c m))) s = (Inr u, s') \<Longrightarrow>
     trace s' = trace s @ [(SubmitBlock b, ROutcome (BlockRejected c m))]
     \<and> yielded s' = yielded s @ [rejected b (Some (RejectResult c m))]
     \<and> spendable_checkdatasigs s' = spendable_checkdatasigs s"
  unfolding yield_def rejected_def
  by (auto dest!: bnd_okD for_each_single_ok submit_ok simp: frame_def ret_def elim!: matches.elims)

lemma register_outputs_ok:
  "register_outputs tx s = (Inr u, s') \<Longrightarrow>
     trace s' = trace s \<and> yielded s' = yielded s
     \<and> spendable_checkdatasigs s' = registered tx"
  by (auto simp: register_outputs_def)

lemma spend_checkdatasig_run_ok:
  "spend_checkdatasig_run fw r s = (Inr tx0, s') \<Longrightarrow>
     trace s' = trace s \<and> yielded s' = yielded s
     \<and> spend_checkdatasig (hash256 fw) r (spendable_checkdatasigs s) = (Inr tx0, spendable_checkdatasigs s')"
  by (auto simp: spend_checkdatasig_run_def split: prod.splits)

lemma wait_loop_ok:
  assumes c: "\<And>s ok s1. cond s = (Inr ok, s1) \<Longrightarrow>
                \<exists>pool. trace s1 = trace s @ [poll pool] \<and> ok = Q pool \<and> frame s s1"
  shows "wait_loop k cond s = (Inr u, s') \<Longrightarrow>
     \<exists>pools. pools \<noteq> [] \<and> length pools \<le> k \<and> trace s' = trace s @ map poll pools
       \<and> Q (last pools) \<and> list_all (\<lambda>p. \<not> Q p) (butlast pools) \<and> frame s s'"
proof (induction k arbitrary: s)
  case 0
  then show ?case by (simp add: raise_def)
next
  case (Suc k)
  from Suc.prems obtain ok s1 where 1: "cond s = (Inr ok, s1)"
    and 2: "(if ok then ret () else wait_loop k cond) s1 = (Inr u, s')"
    by (auto dest!: bnd_okD)
  from c[OF 1] obtain pool where p: "trace s1 = trace s @ [poll pool]" "ok = Q pool" "frame s s1"
    by blast
  show ?case
  proof (cases ok)
    case True
    with 2 have "s' = s1" by (simp add: ret_def)
    with p True show ?thesis by (intro exI[of _ "[pool]"]) simp
  next
    case False
    with 2 have "wait_loop k cond s1 = (Inr u, s')" by simp
    from Suc.IH[OF this] obtain pools where q: "pools \<noteq> []" "length pools \<le> k"
      "trace s' = trace s1 @ map poll pools" "Q (last pools)"
      "list_all (\<lambda>p. \<not> Q p) (butlast pools)" "frame s1 s'" by blast
    with p False show ?thesis
      by (intro exI[of _ "pool # pools"]) (simp add: frame_def)
  qed
qed

lemma round_events_simp:
  "round_events (h, p, b) =
     [(GetBlockchainInfo, RBlockchainInfo h), (GetBestBlockHash, RBestBlockHash p),
      (SubmitBlock b, ROutcome BlockAccepted)]"
  by (simp add: round_events_def)

lemma plain_blocks_ok:
  "for_each js (\<lambda>i. bnd (next_block fw rpc (T + i - 1)) (\<lambda>b. yield rpc (accepted b))) s = (Inr u, s') \<Longrightarrow>
     \<exists>rounds. list_all2 (\<lambda>i (h, p, b). built fw h p (T + i - 1) b) js rounds
       \<and> trace s' = trace s @ concat (map round_events rounds)
       \<and> yielded s' = yielded s @ map (\<lambda>(h, p, b). accepted b) rounds
       \<and> spendable_checkdatasigs s' = spendable_checkdatasigs s"
proof (induction js arbitrary: s)
  case Nil
  then show ?case by (simp add: ret_def)
next
  case (Cons j js)
  from Cons.prems obtain b s1 s2 where
    1: "next_block fw rpc (T + j - 1) s = (Inr b, s1)" and
    2: "yield rpc (accepted b) s1 = (Inr (), s2)" and
    3: "for_each js (\<lambda>i. bnd (next_block fw rpc (T + i - 1)) (\<lambda>b. yield rpc (accepted b))) s2 = (Inr u, s')"
    by (auto dest!: bnd_okD)
  from next_block_ok[OF 1] obtain h p where
    a: "trace s1 = trace s @ [(GetBlockchainInfo, RBlockchainInfo h), (GetBestBlockHash, RBestBlockHash p)]"
      "built fw h p (T + j - 1) b" "frame s s1" by blast
  note y = yield_accepted_ok[OF 2]
  from Cons.IH[OF 3] obtain rounds where
    r: "list_all2 (\<lambda>i (h, p, b). built fw h p (T + i - 1) b) js rounds"
      "trace s' = trace s2 @ concat (map round_events rounds)"
      "yielded s' = yielded s2 @ map (\<lambda>(h, p, b). accepted b) rounds"
      "spendable_checkdatasigs s' = spendable_checkdatasigs s2" by blast
  show ?case
    using a y r by (intro exI[of _ "(h, p, b) # rounds"]) (simp add: frame_def round_events_simp)
qed

lemma range6: "map int [0 ..< 6] = [0, 1, 2, 3, 4, 5]"
  by (simp add: upt_rec)

lemma waitFor_present_ok:
  "waitFor fw T (in_mempool rpc t) s = (Inr u, s') \<Longrightarrow>
     \<exists>pools. pools \<noteq> [] \<and> length pools \<le> Suc (T * polls_per_second fw)
       \<and> trace s' = trace s @ map poll pools
       \<and> t \<in> set (last pools) \<and> list_all (\<lambda>p. t \<notin> set p) (butlast pools) \<and> frame s s'"
  unfolding waitFor_def
  by (rule wait_loop_ok[where Q = "\<lambda>p. t \<in> set p"])
     (auto dest!: in_mempool_ok simp: poll_def)

lemma waitFor_absent_ok:
  "waitFor fw T (bnd (in_mempool rpc t) (\<lambda>present. ret (\<not> present))) s = (Inr u, s') \<Longrightarrow>
     \<exists>pools. pools \<noteq> [] \<and> length pools \<le> Suc (T * polls_per_second fw)
       \<and> trace s' = trace s @ map poll pools
       \<and> t \<notin> set (last pools) \<and> list_all (\<lambda>p. t \<in> set p) (butlast pools) \<and> frame s s'"
  unfolding waitFor_def
  by (drule wait_loop_ok[where Q = "\<lambda>p. t \<notin> set p", rotated])
     (auto dest!: bnd_okD in_mempool_ok ret_ok simp: poll_def)

lemma get_tests_passing:
  assumes "get_tests fw rpc r s0 = (Inr (), s)"
  obtains g1 u us raw tx_hex txid p1 g2 p2 tx0_hex m1 rounds bb1 hA pA bR hF pF fork bb2 tx0id p3 hN pN nov p4 hn i1 polls1 hf i2 polls2 ftx tx tx0 bA bN
  where
    "trace s = trace s0 @
       [(Generate 125, g1), (ListUnspent, RUnspent (u # us)),
        (SignRawTransaction raw, RSigned tx_hex), (SendRawTransaction tx_hex, RTxid txid),
        poll p1, (Generate 1, g2), poll p2,
        (SendRawTransaction tx0_hex, RError (- 26) RPC_BAD_OPCODE_ERROR),
        (SetMockTime NOV152018_START_TIME, m1)] @
       concat (map round_events rounds) @
       [(GetBestBlockHash, RBestBlockHash bb1), (GetBlockHeader bb1, RBlockHeader (NOV152018_START_TIME - 1)),
        (SendRawTransaction tx0_hex, RError (- 26) RPC_BAD_OPCODE_ERROR),
        (GetBlockchainInfo, RBlockchainInfo hA), (GetBestBlockHash, RBestBlockHash pA),
        (SubmitBlock bR, ROutcome (BlockRejected 16 ''bad-blk-signatures'')),
        (GetBlockchainInfo, RBlockchainInfo hF), (GetBestBlockHash, RBestBlockHash pF),
        (SubmitBlock fork, ROutcome BlockAccepted),
        (GetBestBlockHash, RBestBlockHash bb2), (GetBlockHeader bb2, RBlockHeader NOV152018_START_TIME),
        (SendRawTransaction tx0_hex, RTxid tx0id), poll p3,
        (GetBlockchainInfo, RBlockchainInfo hN), (GetBestBlockHash, RBestBlockHash pN),
        (SubmitBlock nov, ROutcome BlockAccepted), poll p4,
        (InvalidateBlock hn, i1)] @
       map poll polls1 @ [(InvalidateBlock hf, i2)] @ map poll polls2"
    and "yielded s = yielded s0 @ map (\<lambda>(h, p, b). accepted b) rounds @
       [rejected bR (Some (RejectResult 16 ''bad-blk-signatures'')), accepted fork, accepted nov]"
    and "checkdatasig_tx u 25 = Inr ftx"
    and "ToHex ftx = Inr raw"
    and "txid \<in> set p1"
    and "txid \<notin> set p2"
    and "rehash (hash256 fw) (FromHex tx_hex) = Inr tx"
    and "spend_checkdatasig (hash256 fw) r
        (registered tx)
      = (Inr tx0, spendable_checkdatasigs s)"
    and "ToHex tx0 = Inr tx0_hex"
    and "list_all2 (\<lambda>i (h, p, b). built fw h p (NOV152018_START_TIME + i - 1) b) [0, 1, 2, 3, 4, 5] rounds"
    and "built fw hA pA (NOV152018_START_TIME + 6) bA"
    and "extended fw bA tx0 bR"
    and "built fw hF pF (NOV152018_START_TIME + 6) fork"
    and "tx0id \<in> set p3"
    and "built fw hN pN (NOV152018_START_TIME + 7) bN"
    and "extended fw bN tx0 nov"
    and "tx0id \<notin> set p4"
    and "block_sha256 nov = Some hn"
    and "block_sha256 fork = Some hf"
    and "polls1 \<noteq> []"
    and "length polls1 \<le> Suc (3 * polls_per_second fw)"
    and "tx0id \<in> set (last polls1)"
    and "list_all (\<lambda>p. tx0id \<notin> set p) (butlast polls1)"
    and "polls2 \<noteq> []"
    and "length polls2 \<le> Suc (3 * polls_per_second fw)"
    and "tx0id \<notin> set (last polls2)"
    and "list_all (\<lambda>p. tx0id \<in> set p) (butlast polls2)"
proof -
  from assms[unfolded get_tests_def]
  obtain g1 s1 tx_hex s2 txid s3 pr1 s4 u5 s5 g2 s6 pr2 s7 u8 s8 tx s9 u10 s10 tx0 s11 tx0_hex s12 u13 s13 m1 s14 u15 s15 bb1 s16 mt1 s17 u18 s18 u19 s19 bA s20 bR s21 u22 s22 fork s23 u24 s24 bb2 s25 mt2 s26 u27 s27 tx0id s28 pr3 s29 u30 s30 bN s31 nov s32 u33 s33 pr4 s34 u35 s35 hn s36 i1 s37 u38 s38 hf s39 i2 s40 u41 where
    e1: "call rpc (Generate 125) s0 = (Inr g1, s1)" and
    e2: "create_checkdatasig_tx rpc 25 s1 = (Inr tx_hex, s2)" and
    e3: "sendrawtransaction rpc tx_hex s2 = (Inr txid, s3)" and
    e4: "in_mempool rpc txid s3 = (Inr pr1, s4)" and
    e5: "py_assert pr1 s4 = (Inr u5, s5)" and
    e6: "call rpc (Generate 1) s5 = (Inr g2, s6)" and
    e7: "in_mempool rpc txid s6 = (Inr pr2, s7)" and
    e8: "py_assert (\<not> pr2) s7 = (Inr u8, s8)" and
    e9: "lift (rehash (hash256 fw) (FromHex tx_hex)) s8 = (Inr tx, s9)" and
    e10: "register_outputs tx s9 = (Inr u10, s10)" and
    e11: "spend_checkdatasig_run fw r s10 = (Inr tx0, s11)" and
    e12: "lift (ToHex tx0) s11 = (Inr tx0_hex, s12)" and
    e13: "assert_raises_rpc_error (- 26) RPC_BAD_OPCODE_ERROR rpc (SendRawTransaction tx0_hex) s12 = (Inr u13, s13)" and
    e14: "call rpc (SetMockTime NOV152018_START_TIME) s13 = (Inr m1, s14)" and
    e15: "for_each (map int [0 ..< 6]) (\<lambda>i. bnd (next_block fw rpc (NOV152018_START_TIME + i - 1)) (\<lambda>b. yield rpc (accepted b))) s14 = (Inr u15, s15)" and
    e16: "getbestblockhash rpc s15 = (Inr bb1, s16)" and
    e17: "mediantime rpc bb1 s16 = (Inr mt1, s17)" and
    e18: "assert_equal mt1 (NOV152018_START_TIME - 1) s17 = (Inr u18, s18)" and
    e19: "assert_raises_rpc_error (- 26) RPC_BAD_OPCODE_ERROR rpc (SendRawTransaction tx0_hex) s18 = (Inr u19, s19)" and
    e20: "next_block fw rpc (NOV152018_START_TIME + 6) s19 = (Inr bA, s20)" and
    e21: "add_tx fw bA tx0 s20 = (Inr bR, s21)" and
    e22: "yield rpc (rejected bR (Some (RejectResult 16 ''bad-blk-signatures''))) s21 = (Inr u22, s22)" and
    e23: "next_block fw rpc (NOV152018_START_TIME + 6) s22 = (Inr fork, s23)" and
    e24: "yield rpc (accepted fork) s23 = (Inr u24, s24)" and
    e25: "getbestblockhash rpc s24 = (Inr bb2, s25)" and
    e26: "mediantime rpc bb2 s25 = (Inr mt2, s26)" and
    e27: "assert_equal mt2 NOV152018_START_TIME s26 = (Inr u27, s27)" and
    e28: "sendrawtransaction rpc tx0_hex s27 = (Inr tx0id, s28)" and
    e29: "in_mempool rpc tx0id s28 = (Inr pr3, s29)" and
    e30: "py_assert pr3 s29 = (Inr u30, s30)" and
    e31: "next_block fw rpc (NOV152018_START_TIME + 7) s30 = (Inr bN, s31)" and
    e32: "add_tx fw bN tx0 s31 = (Inr nov, s32)" and
    e33: "yield rpc (accepted nov) s32 = (Inr u33, s33)" and
    e34: "in_mempool rpc tx0id s33 = (Inr pr4, s34)" and
    e35: "py_assert (\<not> pr4) s34 = (Inr u35, s35)" and
    e36: "lift (case block_sha256 nov of None \<Rightarrow> Inl TypeError | Some h \<Rightarrow> Inr h) s35 = (Inr hn, s36)" and
    e37: "call rpc (InvalidateBlock hn) s36 = (Inr i1, s37)" and
    e38: "waitFor fw 3 (in_mempool rpc tx0id) s37 = (Inr u38, s38)" and
    e39: "lift (case block_sha256 fork of None \<Rightarrow> Inl TypeError | Some h \<Rightarrow> Inr h) s38 = (Inr hf, s39)" and
    e40: "call rpc (InvalidateBlock hf) s39 = (Inr i2, s40)" and
    e41: "waitFor fw 3 (bnd (in_mempool rpc tx0id) (\<lambda>present. ret (\<not> present))) s40 = (Inr u41, s)"
    by (elim bndE) (rule that)
  note t1 = call_ok[OF e1]
  from create_checkdatasig_tx_ok[OF e2] obtain u us ftx raw where
    t2: "trace s2 = trace s1 @ [(ListUnspent, RUnspent (u # us)), (SignRawTransaction raw, RSigned tx_hex)]"
      "checkdatasig_tx u 25 = Inr ftx" "ToHex ftx = Inr raw" "frame s1 s2" by blast
  note t3 = sendrawtransaction_ok[OF e3]
  from in_mempool_ok[OF e4] obtain p1 where
    t4: "trace s4 = trace s3 @ [poll p1]" "pr1 = (txid \<in> set p1)" "frame s3 s4"
    unfolding poll_def by blast
  note t5 = py_assert_ok[OF e5]
  note t6 = call_ok[OF e6]
  from in_mempool_ok[OF e7] obtain p2 where
    t7: "trace s7 = trace s6 @ [poll p2]" "pr2 = (txid \<in> set p2)" "frame s6 s7"
    unfolding poll_def by blast
  note t8 = py_assert_ok[OF e8]
  note t9 = lift_ok[OF e9]
  note t10 = register_outputs_ok[OF e10]
  note t11 = spend_checkdatasig_run_ok[OF e11]
  note t12 = lift_ok[OF e12]
  note t13 = assert_raises_rpc_error_ok[OF e13]
  note t14 = call_ok[OF e14]
  from plain_blocks_ok[OF e15] obtain rounds where
    t15: "list_all2 (\<lambda>i (h, p, b). built fw h p (NOV152018_START_TIME + i - 1) b) (map int [0 ..< 6]) rounds"
      "trace s15 = trace s14 @ concat (map round_events rounds)"
      "yielded s15 = yielded s14 @ map (\<lambda>(h, p, b). accepted b) rounds"
      "spendable_checkdatasigs s15 = spendable_checkdatasigs s14" by blast
  note t16 = getbestblockhash_ok[OF e16]
  note t17 = mediantime_ok[OF e17]
  note t18 = py_assert_ok[OF e18[unfolded assert_equal_def]]
  note t19 = assert_raises_rpc_error_ok[OF e19]
  from next_block_ok[OF e20] obtain hA pA where
    t20: "trace s20 = trace s19 @ [(GetBlockchainInfo, RBlockchainInfo hA), (GetBestBlockHash, RBestBlockHash pA)]"
      "built fw hA pA (NOV152018_START_TIME + 6) bA" "frame s19 s20" by blast
  note t21 = add_tx_ok[OF e21]
  note t22 = yield_rejected_ok[OF e22]
  from next_block_ok[OF e23] obtain hF pF where
    t23: "trace s23 = trace s22 @ [(GetBlockchainInfo, RBlockchainInfo hF), (GetBestBlockHash, RBestBlockHash pF)]"
      "built fw hF pF (NOV152018_START_TIME + 6) fork" "frame s22 s23" by blast
  note t24 = yield_accepted_ok[OF e24]
  note t25 = getbestblockhash_ok[OF e25]
  note t26 = mediantime_ok[OF e26]
  note t27 = py_assert_ok[OF e27[unfolded assert_equal_def]]
  note t28 = sendrawtransaction_ok[OF e28]
  from in_mempool_ok[OF e29] obtain p3 where
    t29: "trace s29 = trace s28 @ [poll p3]" "pr3 = (tx0id \<in> set p3)" "frame s28 s29"
    unfolding poll_def by blast
  note t30 = py_assert_ok[OF e30]
  from next_block_ok[OF e31] obtain hN pN where
    t31: "trace s31 = trace s30 @ [(GetBlockchainInfo, RBlockchainInfo hN), (GetBestBlockHash, RBestBlockHash pN)]"
      "built fw hN pN (NOV152018_START_TIME + 7) bN" "frame s30 s31" by blast
  note t32 = add_tx_ok[OF e32]
  note t33 = yield_accepted_ok[OF e33]
  from in_mempool_ok[OF e34] obtain p4 where
    t34: "trace s34 = trace s33 @ [poll p4]" "pr4 = (tx0id \<in> set p4)" "frame s33 s34"
    unfolding poll_def by blast
  note t35 = py_assert_ok[OF e35]
  from lift_ok[OF e36] have t36: "block_sha256 nov = Some hn" "s36 = s35"
    by (auto split: option.splits)
  note t37 = call_ok[OF e37]
  from waitFor_present_ok[OF e38] obtain polls1 where
    t38: "polls1 \<noteq> []" "length polls1 \<le> Suc (3 * polls_per_second fw)"
      "trace s38 = trace s37 @ map poll polls1" "tx0id \<in> set (last polls1)"
      "list_all (\<lambda>p. tx0id \<notin> set p) (butlast polls1)" "frame s37 s38" by blast
  from lift_ok[OF e39] have t39: "block_sha256 fork = Some hf" "s39 = s38"
    by (auto split: option.splits)
  note t40 = call_ok[OF e40]
  from waitFor_absent_ok[OF e41] obtain polls2 where
    t41: "polls2 \<noteq> []" "length polls2 \<le> Suc (3 * polls_per_second fw)"
      "trace s = trace s40 @ map poll polls2" "tx0id \<notin> set (last polls2)"
      "list_all (\<lambda>p. tx0id \<in> set p) (butlast polls2)" "frame s40 s" by blast
  note all = t1 t2 t3 t4 t5 t6 t7 t8 t9 t10 t11 t12 t13 t14 t15 t16 t17 t18 t19 t20
    t21 t22 t23 t24 t25 t26 t27 t28 t29 t30 t31 t32 t33 t34 t35 t36 t37 t38 t39 t40 t41
  show thesis
  proof (rule that[of g1 u us raw tx_hex txid p1 g2 p2 tx0_hex m1 rounds bb1 hA pA bR hF pF fork bb2 tx0id p3 hN pN nov p4 hn i1 polls1 hf i2 polls2 ftx tx tx0 bA bN])
    show "trace s = trace s0 @
       [(Generate 125, g1), (ListUnspent, RUnspent (u # us)),
        (SignRawTransaction raw, RSigned tx_hex), (SendRawTransaction tx_hex, RTxid txid),
        poll p1, (Generate 1, g2), poll p2,
        (SendRawTransaction tx0_hex, RError (- 26) RPC_BAD_OPCODE_ERROR),
        (SetMockTime NOV152018_START_TIME, m1)] @
       concat (map round_events rounds) @
       [(GetBestBlockHash, RBestBlockHash bb1), (GetBlockHeader bb1, RBlockHeader (NOV152018_START_TIME - 1)),
        (SendRawTransaction tx0_hex, RError (- 26) RPC_BAD_OPCODE_ERROR),
        (GetBlockchainInfo, RBlockchainInfo hA), (GetBestBlockHash, RBestBlockHash pA),
        (SubmitBlock bR, ROutcome (BlockRejected 16 ''bad-blk-signatures'')),
        (GetBlockchainInfo, RBlockchainInfo hF), (GetBestBlockHash, RBestBlockHash pF),
        (SubmitBlock fork, ROutcome BlockAccepted),
        (GetBestBlockHash, RBestBlockHash bb2), (GetBlockHeader bb2, RBlockHeader NOV152018_START_TIME),
        (SendRawTransaction tx0_hex, RTxid tx0id), poll p3,
        (GetBlockchainInfo, RBlockchainInfo hN), (GetBestBlockHash, RBestBlockHash pN),
        (SubmitBlock nov, ROutcome BlockAccepted), poll p4,
        (InvalidateBlock hn, i1)] @
       map poll polls1 @ [(InvalidateBlock hf, i2)] @ map poll polls2"
      using all by simp
    show "yielded s = yielded s0 @ map (\<lambda>(h, p, b). accepted b) rounds @
       [rejected bR (Some (RejectResult 16 ''bad-blk-signatures'')), accepted fork, accepted nov]"
      using all by (simp add: frame_def)
    show "spend_checkdatasig (hash256 fw) r
        (registered tx)
      = (Inr tx0, spendable_checkdatasigs s)"
      using all by (simp add: frame_def)
    show "list_all2 (\<lambda>i (h, p, b). built fw h p (NOV152018_START_TIME + i - 1) b) [0, 1, 2, 3, 4, 5] rounds"
      using t15(1) by (simp only: range6)
  qed (use all in simp_all)
qed

subsection \<open>spend\_checkdatasig\<close>

lemma rehash_vin: "rehash H tx = Inr tx' \<Longrightarrow> vin tx' = vin tx \<and> vout tx' = vout tx \<and> sha256 tx' \<noteq> None"
  by (auto simp: rehash_def split: sum.splits)

lemma deduct_fee_vin: "deduct_fee v tx = Inr tx' \<Longrightarrow> vin tx' = vin tx"
  by (auto simp: deduct_fee_def split: list.splits sum.splits)

lemma spend_checkdatasig_pop:
  "spendable \<noteq> [] \<Longrightarrow> snd (spend_checkdatasig H r spendable) = butlast spendable"
  by (auto simp: spend_checkdatasig_def Let_def split: sum.splits option.splits)

lemma spend_checkdatasig_empty:
  "spend_checkdatasig H r [] = (Inl IndexError, [])"
  by (simp add: spend_checkdatasig_def)

lemma spend_checkdatasig_input:
  assumes "spend_checkdatasig H r spendable = (Inr tx, rest)"
  shows "spendable = rest @ [last spendable] \<and> spent_by tx = [outpoint_of (last spendable)]"
proof -
  from assms have ne: "spendable \<noteq> []"
    by (auto simp: spend_checkdatasig_def)
  with spend_checkdatasig_pop[OF ne, of H r] assms have r: "rest = butlast spendable" by simp
  from assms ne have "spent_by tx = [outpoint_of (last spendable)]"
    by (auto simp: spend_checkdatasig_def Let_def spent_by_def outpoint_of_def new_CTransaction_def
          new_CTxIn_def dest!: rehash_vin deduct_fee_vin split: sum.splits option.splits)
  with r ne show ?thesis by simp
qed

lemma spend_many_spent:
  "spend_many H rs spendable = (txs, rest) \<Longrightarrow>
     \<exists>used. spendable = rest @ used \<and> length txs \<le> length used
        \<and> concat (map spent_by txs) = map outpoint_of (rev (drop (length used - length txs) used))"
proof (induction rs arbitrary: spendable txs rest)
  case Nil
  then show ?case by simp
next
  case (Cons r rs)
  show ?case
  proof (cases "spend_checkdatasig H r spendable")
    case (Pair res rest1)
    show ?thesis
    proof (cases res)
      case (Inl e)
      with Pair Cons.prems have t: "txs = []" "rest = rest1" by auto
      show ?thesis
      proof (cases "spendable = []")
        case True
        with Pair t show ?thesis by (simp add: spend_checkdatasig_empty)
      next
        case False
        from spend_checkdatasig_pop[OF False, of H r] Pair have "rest1 = butlast spendable" by simp
        with False t show ?thesis
          by (intro exI[of _ "[last spendable]"]) simp
      qed
    next
      case (Inr tx)
      with Pair Cons.prems obtain txs' where
        m: "spend_many H rs rest1 = (txs', rest)" and t: "txs = tx # txs'"
        by (auto split: prod.splits)
      from Pair Inr have s: "spend_checkdatasig H r spendable = (Inr tx, rest1)" by simp
      note i = spend_checkdatasig_input[OF s]
      from Cons.IH[OF m] obtain used where
        u: "rest1 = rest @ used" "length txs' \<le> length used"
          "concat (map spent_by txs') = map outpoint_of (rev (drop (length used - length txs') used))"
        by blast
      show ?thesis
        using i u t
        by (intro exI[of _ "used @ [last spendable]"])
           (auto simp: Suc_diff_le)
    qed
  qed
qed

lemma spend_many_all:
  "spend_many H rs spendable = (txs, rest) \<Longrightarrow> length txs = length rs \<Longrightarrow>
     length spendable = length rest + length rs"
proof (induction rs arbitrary: spendable txs rest)
  case Nil
  then show ?case by simp
next
  case (Cons r rs)
  from Cons.prems obtain tx rest1 txs' where
    s: "spend_checkdatasig H r spendable = (Inr tx, rest1)" and
    m: "spend_many H rs rest1 = (txs', rest)" and t: "txs = tx # txs'"
    by (auto split: prod.splits sum.splits)
  from spend_checkdatasig_input[OF s] have "length spendable = Suc (length rest1)"
    by (metis length_append_singleton)
  with Cons.IH[OF m] t Cons.prems(2) show ?case by simp
qed

text \<open>
  C8. Every call of \<open>spend_checkdatasig\<close> that returns a transaction has removed exactly
  one entry, the last, from the list of spendable outputs, and the transaction's only
  input is that entry's outpoint. So when the listed outpoints are distinct, the
  transactions built by any sequence of calls spend pairwise distinct outpoints, none of
  which is still listed; and a sequence of calls that all return shortens the list by one
  per call.
\<close>

theorem spend_checkdatasig_at_most_once:
  assumes "distinct (map outpoint_of spendable)"
    and "spend_many H rs spendable = (txs, rest)"
  shows "distinct (concat (map spent_by txs))
     \<and> set (concat (map spent_by txs)) \<inter> set (map outpoint_of rest) = {}
     \<and> (length txs = length rs \<longrightarrow> length spendable = length rest + length rs)
     \<and> (\<forall>r tx rest1. spend_checkdatasig H r spendable = (Inr tx, rest1) \<longrightarrow>
           length spendable = Suc (length rest1) \<and> spendable = rest1 @ [last spendable]
           \<and> spent_by tx = [outpoint_of (last spendable)])"
proof -
  from spend_many_spent[OF assms(2)] obtain used where
    u: "spendable = rest @ used" "length txs \<le> length used"
      "concat (map spent_by txs) = map outpoint_of (rev (drop (length used - length txs) used))"
    by blast
  from assms(1) u(1) have d: "distinct (map outpoint_of used)"
    "set (map outpoint_of rest) \<inter> set (map outpoint_of used) = {}"
    by auto
  have "distinct (map outpoint_of (drop (length used - length txs) used))"
    using d(1) by (simp add: drop_map[symmetric] del: drop_map)
  then have 1: "distinct (concat (map spent_by txs))"
    unfolding u(3) by (metis distinct_rev rev_map)
  have 2: "set (concat (map spent_by txs)) \<subseteq> set (map outpoint_of used)"
    unfolding u(3) using set_drop_subset[of "length used - length txs" used] by auto
  have 3: "\<forall>r tx rest1. spend_checkdatasig H r spendable = (Inr tx, rest1) \<longrightarrow>
           length spendable = Suc (length rest1) \<and> spendable = rest1 @ [last spendable]
           \<and> spent_by tx = [outpoint_of (last spendable)]"
    using spend_checkdatasig_input by (metis length_append_singleton)
  from 1 2 d(2) 3 spend_many_all[OF assms(2)] show ?thesis by blast
qed

lemma fee_scenario: "fee (PyInt 200000000) = Inr (PyInt 1000)"
  by code_simp

lemma demo_spend_many:
  "spend_many (\<lambda>raw. 5) [11, 12] demo_spendable =
     ([\<lparr>vin = [\<lparr>prevout = \<lparr>op_hash = 77, op_n = 2\<rparr>, scriptSig = []\<rparr>],
        vout = [\<lparr>nValue = PyInt 199999000, scriptPubKey = []\<rparr>,
                \<lparr>nValue = PyInt 0, scriptPubKey = [Num 11, Op OP_RETURN]\<rparr>],
        sha256 = Some 5\<rparr>,
       \<lparr>vin = [\<lparr>prevout = \<lparr>op_hash = 77, op_n = 1\<rparr>, scriptSig = []\<rparr>],
        vout = [\<lparr>nValue = PyInt 199999000, scriptPubKey = []\<rparr>,
                \<lparr>nValue = PyInt 0, scriptPubKey = [Num 12, Op OP_RETURN]\<rparr>],
        sha256 = Some 5\<rparr>],
      [\<lparr>pso_tx = demo_funding, pso_n = 0\<rparr>])"
  by (simp add: demo_spendable_def registered_def demo_funding_def spend_checkdatasig_def py_index_def
        deduct_fee_def fee_scenario rehash_def ToHex_def new_CTransaction_def new_CTxIn_def upt_rec)

theorem spend_checkdatasig_at_most_once_witness:
  "distinct (map outpoint_of demo_spendable)
   \<and> spend_many (\<lambda>raw. 5) [11, 12] demo_spendable =
       (fst (spend_many (\<lambda>raw. 5) [11, 12] demo_spendable), [\<lparr>pso_tx = demo_funding, pso_n = 0\<rparr>])
   \<and> distinct (concat (map spent_by (fst (spend_many (\<lambda>raw. 5) [11, 12] demo_spendable))))
   \<and> length demo_spendable = length [\<lparr>pso_tx = demo_funding, pso_n = 0\<rparr>] + length [11, 12 :: int]"
proof -
  have d: "distinct (map outpoint_of demo_spendable)"
    by (simp add: demo_spendable_def registered_def demo_funding_def outpoint_of_def upt_rec)
  have m: "spend_many (\<lambda>raw. 5) [11, 12] demo_spendable =
       (fst (spend_many (\<lambda>raw. 5) [11, 12] demo_spendable), [\<lparr>pso_tx = demo_funding, pso_n = 0\<rparr>])"
    unfolding demo_spend_many by simp
  have l: "length (fst (spend_many (\<lambda>raw. 5) [11, 12] demo_spendable)) = length [11, 12 :: int]"
    unfolding demo_spend_many by simp
  from spend_checkdatasig_at_most_once[OF d m] d m l show ?thesis by blast
qed

subsection \<open>Which output the spend attempt consumes\<close>

lemma scenario_value: "output_value scenario_utxo 25 = 200000000"
  by (simp add: output_value_def scenario_utxo_def satoshi_round_def py_int_def COIN_def)

lemma ser_vout_replicate:
  "ser_vout (replicate n \<lparr>nValue = PyInt v, scriptPubKey = sc\<rparr>) = Inr (replicate n (v, sc))"
  by (induction n) simp_all

lemma ser_vout_FromHex:
  "ser_vout (map (\<lambda>(v, s). \<lparr>nValue = PyInt v, scriptPubKey = s\<rparr>) outs) = Inr outs"
  by (induction outs) auto

lemma ToHex_FromHex: "ToHex (FromHex raw) = Inr raw"
  by (cases raw) (simp add: ToHex_def FromHex_def ser_vout_FromHex)

lemma rehash_FromHex:
  "rehash H (FromHex raw) = Inr tx \<Longrightarrow>
     sha256 tx = Some (H raw) \<and> length (vout tx) = length (raw_vout raw) \<and> vin tx = raw_vin raw"
  by (auto simp: rehash_def ToHex_FromHex) (simp_all add: FromHex_def)

lemma checkdatasig_tx_int_fee:
  assumes "0 < count" and "fee (PyInt (output_value u count)) = Inr (PyInt f)"
  shows "checkdatasig_tx u count =
     Inr \<lparr>vin = [new_CTxIn \<lparr>op_hash = u_txid u, op_n = u_vout u\<rparr>],
          vout = \<lparr>nValue = PyInt (output_value u count - f), scriptPubKey = checkdatasig_script\<rparr> #
                 replicate (nat count - 1)
                   \<lparr>nValue = PyInt (output_value u count), scriptPubKey = checkdatasig_script\<rparr>,
          sha256 = None\<rparr>"
proof -
  from assms(1) obtain k where k: "nat count = Suc k" by (cases "nat count") auto
  with assms show ?thesis
    by (simp add: checkdatasig_tx_def Let_def deduct_fee_def new_CTransaction_def)
qed

lemma last_registered:
  "vout tx \<noteq> [] \<Longrightarrow>
     registered tx \<noteq> [] \<and> last (registered tx) = \<lparr>pso_tx = tx, pso_n = int (length (vout tx)) - 1\<rparr>"
  by (cases "length (vout tx)") (simp_all add: registered_def of_nat_diff)

lemma scenario_funding: "checkdatasig_tx scenario_utxo 25 = Inr scenario_ftx"
proof -
  have "fee (PyInt (output_value scenario_utxo 25)) = Inr (PyInt 1000)"
    by (simp add: scenario_value fee_scenario)
  from checkdatasig_tx_int_fee[OF _ this]
  have "checkdatasig_tx scenario_utxo 25 =
     Inr \<lparr>vin = [new_CTxIn \<lparr>op_hash = u_txid scenario_utxo, op_n = u_vout scenario_utxo\<rparr>],
          vout = scenario_outputs, sha256 = None\<rparr>"
    by (simp add: scenario_value scenario_outputs_def)
  then show ?thesis
    by (simp add: scenario_ftx_def new_CTxIn_def scenario_utxo_def)
qed

lemma scenario_serialised: "ToHex scenario_ftx = Inr scenario_raw"
  by (simp add: ToHex_def scenario_ftx_def scenario_outputs_def ser_vout_replicate scenario_raw_def)

lemma scenario_registered: "rehash scenario_hash (FromHex scenario_raw) = Inr scenario_tx"
  by (simp add: rehash_def ToHex_FromHex)
     (simp add: FromHex_def scenario_raw_def scenario_tx_def scenario_ftx_def scenario_outputs_def
        scenario_hash_def)

lemma scenario_spent:
  "spend_checkdatasig scenario_hash 12345 (registered scenario_tx)
     = (Inr scenario_spend, butlast (registered scenario_tx))"
proof -
  let ?B = "\<lparr>nValue = PyInt 200000000, scriptPubKey = checkdatasig_script\<rparr>"
  have v: "vout scenario_tx = scenario_outputs" "sha256 scenario_tx = Some 25"
    by (simp_all add: scenario_tx_def scenario_ftx_def)
  have l: "registered scenario_tx \<noteq> []"
    "last (registered scenario_tx) = \<lparr>pso_tx = scenario_tx, pso_n = 24\<rparr>"
    using last_registered[of scenario_tx] by (simp_all add: v scenario_outputs_def)
  have i: "py_index scenario_outputs 24 = Inr ?B"
    by (simp add: py_index_def scenario_outputs_def)
  show ?thesis
    by (simp add: spend_checkdatasig_def l i v deduct_fee_def fee_scenario new_CTransaction_def
          new_CTxIn_def rehash_def ToHex_def Let_def scenario_spend_def scenario_hash_def)
qed

text \<open>
  C7, as stated, fails. In the scenario of the script (one unspent output of 50 coins
  split into 25 outputs, the funding transaction registered, one call of
  \<open>spend_checkdatasig\<close>) the transaction built spends output 24 of the funding
  transaction, the last one, and not output 0.
\<close>

theorem spend_consumes_index_24_not_0:
  "checkdatasig_tx scenario_utxo 25 = Inr scenario_ftx
   \<and> ToHex scenario_ftx = Inr scenario_raw
   \<and> rehash scenario_hash (FromHex scenario_raw) = Inr scenario_tx
   \<and> fst (spend_checkdatasig scenario_hash 12345 (registered scenario_tx)) = Inr scenario_spend
   \<and> map (\<lambda>i. op_n (prevout i)) (vin scenario_spend) = [24]
   \<and> map (\<lambda>i. op_n (prevout i)) (vin scenario_spend) \<noteq> [0]"
  by (simp add: scenario_funding scenario_serialised scenario_registered scenario_spent)
     (simp add: scenario_spend_def)

text \<open>
  C7, amended. The spend attempt pops the last registered entry: the transaction built
  from the registered funding transaction spends the output of index
  \<open>len(tx.vout) - 1\<close> of that transaction, which is index 24 when the funding
  transaction has 25 outputs.
\<close>

theorem spend_consumes_last_output:
  assumes "rehash H (FromHex raw) = Inr tx"
    and "spend_checkdatasig H r (registered tx) = (Inr tx0, rest)"
  shows "spent_by tx0 = [(Some (H raw), int (length (raw_vout raw)) - 1)]
     \<and> rest = butlast (registered tx)
     \<and> (length (raw_vout raw) = 25 \<longrightarrow> map (\<lambda>i. op_n (prevout i)) (vin tx0) = [24])"
proof -
  note f = rehash_FromHex[OF assms(1)]
  from assms(2) have ne: "registered tx \<noteq> []"
    by (auto simp: spend_checkdatasig_def)
  then have "vout tx \<noteq> []" by (auto simp: registered_def)
  from last_registered[OF this] have l: "last (registered tx) = \<lparr>pso_tx = tx, pso_n = int (length (vout tx)) - 1\<rparr>"
    by simp
  from spend_checkdatasig_input[OF assms(2)] l f
  have s: "spent_by tx0 = [(Some (H raw), int (length (raw_vout raw)) - 1)]"
    by (simp add: outpoint_of_def)
  from spend_checkdatasig_pop[OF ne, of H r] assms(2) have r: "rest = butlast (registered tx)"
    by simp
  from s have "length (raw_vout raw) = 25 \<longrightarrow> map (\<lambda>i. op_n (prevout i)) (vin tx0) = [24]"
    by (auto simp: spent_by_def)
  with s r show ?thesis by simp
qed

theorem spend_consumes_last_output_witness:
  "rehash scenario_hash (FromHex scenario_raw) = Inr scenario_tx
   \<and> spend_checkdatasig scenario_hash 12345 (registered scenario_tx)
       = (Inr scenario_spend, butlast (registered scenario_tx))
   \<and> length (raw_vout scenario_raw) = 25
   \<and> spent_by scenario_spend = [(Some (scenario_hash scenario_raw), int (length (raw_vout scenario_raw)) - 1)]
   \<and> map (\<lambda>i. op_n (prevout i)) (vin scenario_spend) = [24]"
proof -
  have n: "length (raw_vout scenario_raw) = 25"
    by (simp add: scenario_raw_def)
  from spend_consumes_last_output[OF scenario_registered scenario_spent] n
    scenario_registered scenario_spent
  show ?thesis by simp
qed

subsection \<open>create\_checkdatasig\_tx\<close>

lemma fee_double: "fee (PyInt 400000000) = Inr (PyInt 1000)"
  by code_simp

lemma floor_rat_div:
  fixes x :: rat
  assumes "0 < c"
  shows "\<lfloor>x / of_int c\<rfloor> = \<lfloor>x\<rfloor> div c"
proof -
  have "\<lfloor>x / rat_of_int c\<rfloor> = \<lfloor>(of_rat (x / of_int c) :: real)\<rfloor>"
    by simp
  also have "\<dots> = \<lfloor>(of_rat x :: real) / real_of_int c\<rfloor>"
    by (simp add: of_rat_divide)
  also have "\<dots> = \<lfloor>(of_rat x :: real)\<rfloor> div c"
    using assms by (intro floor_divide_real_eq_div) simp
  finally show ?thesis by simp
qed

lemma output_value_floor:
  assumes "0 < count" and "0 \<le> u_amount u"
  shows "output_value u count = \<lfloor>u_amount u * of_int COIN / of_int count\<rfloor>"
proof -
  have c: "(0::rat) < of_int COIN" by (simp add: COIN_def)
  with assms(2) have nn: "0 \<le> u_amount u * of_int COIN" by simp
  have "satoshi_round (u_amount u) * of_int COIN = of_int \<lfloor>u_amount u * of_int COIN\<rfloor>"
    using nn c by (simp add: satoshi_round_def py_int_def)
  then have "output_value u count = \<lfloor>u_amount u * of_int COIN\<rfloor> div count"
    by (simp add: output_value_def py_int_def)
  also have "\<dots> = \<lfloor>u_amount u * of_int COIN / of_int count\<rfloor>"
    using assms(1) by (simp add: floor_rat_div)
  finally show ?thesis .
qed

lemma checkdatasig_tx_shape:
  assumes "0 < count" and "checkdatasig_tx u count = Inr tx"
  shows "\<exists>f w. fee (PyInt (output_value u count)) = Inr f
           \<and> py_sub (PyInt (output_value u count)) f = Inr w
           \<and> tx = \<lparr>vin = [new_CTxIn \<lparr>op_hash = u_txid u, op_n = u_vout u\<rparr>],
                   vout = \<lparr>nValue = w, scriptPubKey = checkdatasig_script\<rparr> #
                          replicate (nat count - 1)
                            \<lparr>nValue = PyInt (output_value u count), scriptPubKey = checkdatasig_script\<rparr>,
                   sha256 = None\<rparr>"
proof -
  from assms(1) obtain k where k: "nat count = Suc k" by (cases "nat count") auto
  with assms show ?thesis
    by (auto simp: checkdatasig_tx_def Let_def deduct_fee_def new_CTransaction_def
          split: sum.splits)
qed

lemma create_checkdatasig_tx_none:
  "rpc ListUnspent (node s) = (RUnspent [], n1) \<Longrightarrow>
     fst (create_checkdatasig_tx rpc count s) = Inl AssertionError"
  by (simp add: create_checkdatasig_tx_def listunspent_def call_def send_def bnd_def ret_def raise_def)

lemma create_checkdatasig_tx_some:
  assumes "rpc ListUnspent (node s) = (RUnspent (u # us), n1)"
    and "create_checkdatasig_tx rpc count s = (Inr tx_hex, s')"
  shows "\<exists>tx raw. checkdatasig_tx u count = Inr tx \<and> ToHex tx = Inr raw
           \<and> rpc (SignRawTransaction raw) n1 = (RSigned tx_hex, node s')"
  using assms
  by (auto simp: create_checkdatasig_tx_def listunspent_def signrawtransaction_def call_def
        send_def bnd_def ret_def raise_def lift_def
        split: sum.splits prod.splits response.splits)

text \<open>
  C6, as stated, fails: the fee is not proportional. In the scenario of the script the
  outputs are worth 200000000 each and the first one loses 1000, not a hundredth of its
  value; with twice the amount the outputs are worth 400000000 and the first one still
  loses 1000.
\<close>

theorem funding_fee_is_capped_not_proportional:
  "map_sum id (\<lambda>tx. map nValue (take 2 (vout tx))) (checkdatasig_tx scenario_utxo 25)
     = Inr [PyInt (200000000 - 1000), PyInt 200000000]
   \<and> map_sum id (\<lambda>tx. map nValue (take 2 (vout tx))) (checkdatasig_tx (scenario_utxo\<lparr>u_amount := 100\<rparr>) 25)
     = Inr [PyInt (400000000 - 1000), PyInt 400000000]"
proof -
  have v: "output_value (scenario_utxo\<lparr>u_amount := 100\<rparr>) 25 = 400000000"
    by (simp add: output_value_def scenario_utxo_def satoshi_round_def py_int_def COIN_def)
  have "fee (PyInt (output_value (scenario_utxo\<lparr>u_amount := 100\<rparr>) 25)) = Inr (PyInt 1000)"
    by (simp add: v fee_double)
  from checkdatasig_tx_int_fee[OF _ this] v
  show ?thesis
    by (simp add: scenario_funding scenario_ftx_def scenario_outputs_def)
qed

text \<open>
  C6, amended. \<open>create_checkdatasig_tx(count)\<close> fails its assertion when the node lists
  no unspent output. Given a first listed output \<open>u\<close> of non-negative amount and
  \<open>count \<ge> 1\<close>, a call that returns has sent for signing the serialisation of a
  transaction that spends \<open>u\<close> and has \<open>count\<close> outputs, each locked with the producing
  script; every output but the first is worth \<open>floor(amount * COIN / count)\<close>, and the
  first is worth that value less the fee \<open>min(value/100, 1000)\<close>, a hundredth of the
  value capped at 1000.
\<close>

theorem create_checkdatasig_tx_splits:
  assumes "rpc ListUnspent (node s) = (RUnspent utxos, n1)"
  shows "(utxos = [] \<longrightarrow> fst (create_checkdatasig_tx rpc count s) = Inl AssertionError)
     \<and> (\<forall>u us tx_hex s'.
           utxos = u # us \<and> 0 < count \<and> 0 \<le> u_amount u
           \<and> create_checkdatasig_tx rpc count s = (Inr tx_hex, s') \<longrightarrow>
           (\<exists>tx raw f w.
              checkdatasig_tx u count = Inr tx \<and> ToHex tx = Inr raw
              \<and> rpc (SignRawTransaction raw) n1 = (RSigned tx_hex, node s')
              \<and> output_value u count = \<lfloor>u_amount u * of_int COIN / of_int count\<rfloor>
              \<and> vin tx = [new_CTxIn \<lparr>op_hash = u_txid u, op_n = u_vout u\<rparr>]
              \<and> length (vout tx) = nat count
              \<and> list_all (\<lambda>out. scriptPubKey out = checkdatasig_script) (vout tx)
              \<and> list_all (\<lambda>out. nValue out = PyInt (output_value u count)) (tl (vout tx))
              \<and> fee (PyInt (output_value u count)) = Inr f
              \<and> f = py_min (case py_truediv (PyInt (output_value u count)) (PyInt 100) of Inr q \<Rightarrow> q | Inl e \<Rightarrow> f) (PyInt 1000)
              \<and> py_sub (PyInt (output_value u count)) f = Inr w
              \<and> nValue (hd (vout tx)) = w))"
proof (intro conjI impI allI)
  assume "utxos = []"
  with assms show "fst (create_checkdatasig_tx rpc count s) = Inl AssertionError"
    by (simp add: create_checkdatasig_tx_none)
next
  fix u us tx_hex s'
  assume a: "utxos = u # us \<and> 0 < count \<and> 0 \<le> u_amount u
           \<and> create_checkdatasig_tx rpc count s = (Inr tx_hex, s')"
  with assms have l: "rpc ListUnspent (node s) = (RUnspent (u # us), n1)" by simp
  from a create_checkdatasig_tx_some[where rpc=rpc and s=s and count=count, OF l] obtain tx raw where
    t: "checkdatasig_tx u count = Inr tx" "ToHex tx = Inr raw"
      "rpc (SignRawTransaction raw) n1 = (RSigned tx_hex, node s')" by blast
  from a have c: "0 < count" by simp
  from checkdatasig_tx_shape[OF c t(1)] obtain f w where
    s: "fee (PyInt (output_value u count)) = Inr f"
      "py_sub (PyInt (output_value u count)) f = Inr w"
      "tx = \<lparr>vin = [new_CTxIn \<lparr>op_hash = u_txid u, op_n = u_vout u\<rparr>],
             vout = \<lparr>nValue = w, scriptPubKey = checkdatasig_script\<rparr> #
                    replicate (nat count - 1)
                      \<lparr>nValue = PyInt (output_value u count), scriptPubKey = checkdatasig_script\<rparr>,
             sha256 = None\<rparr>" by blast
  from s(1) have m: "f = py_min (case py_truediv (PyInt (output_value u count)) (PyInt 100) of Inr q \<Rightarrow> q | Inl e \<Rightarrow> f) (PyInt 1000)"
    by (auto simp: fee_def split: sum.splits)
  from c have n: "Suc (nat count - 1) = nat count" by simp
  from a have o: "output_value u count = \<lfloor>u_amount u * of_int COIN / of_int count\<rfloor>"
    by (simp add: output_value_floor)
  have p: "vin tx = [new_CTxIn \<lparr>op_hash = u_txid u, op_n = u_vout u\<rparr>]
      \<and> length (vout tx) = nat count
      \<and> list_all (\<lambda>out. scriptPubKey out = checkdatasig_script) (vout tx)
      \<and> list_all (\<lambda>out. nValue out = PyInt (output_value u count)) (tl (vout tx))
      \<and> nValue (hd (vout tx)) = w"
    using n by (simp add: s(3) list_all_iff)
  from t s(1,2) m o p show "\<exists>tx raw f w.
              checkdatasig_tx u count = Inr tx \<and> ToHex tx = Inr raw
              \<and> rpc (SignRawTransaction raw) n1 = (RSigned tx_hex, node s')
              \<and> output_value u count = \<lfloor>u_amount u * of_int COIN / of_int count\<rfloor>
              \<and> vin tx = [new_CTxIn \<lparr>op_hash = u_txid u, op_n = u_vout u\<rparr>]
              \<and> length (vout tx) = nat count
              \<and> list_all (\<lambda>out. scriptPubKey out = checkdatasig_script) (vout tx)
              \<and> list_all (\<lambda>out. nValue out = PyInt (output_value u count)) (tl (vout tx))
              \<and> fee (PyInt (output_value u count)) = Inr f
              \<and> f = py_min (case py_truediv (PyInt (output_value u count)) (PyInt 100) of Inr q \<Rightarrow> q | Inl e \<Rightarrow> f) (PyInt 1000)
              \<and> py_sub (PyInt (output_value u count)) f = Inr w
              \<and> nValue (hd (vout tx)) = w"
    by blast
qed

lemma scripted_funding:
  "create_checkdatasig_tx replay 25 (scripted [RUnspent [scenario_utxo], RSigned scenario_raw])
     = (Inr scenario_raw,
        snd (create_checkdatasig_tx replay 25 (scripted [RUnspent [scenario_utxo], RSigned scenario_raw])))"
  by (simp add: create_checkdatasig_tx_def listunspent_def signrawtransaction_def call_def
        send_def bnd_def ret_def raise_def lift_def replay_def scripted_def
        scenario_funding scenario_serialised)

theorem create_checkdatasig_tx_splits_witness:
  "replay ListUnspent (node (scripted [RUnspent [scenario_utxo], RSigned scenario_raw]))
     = (RUnspent [scenario_utxo], [RSigned scenario_raw])
   \<and> (0::int) < 25 \<and> 0 \<le> u_amount scenario_utxo
   \<and> fst (create_checkdatasig_tx replay 25 (scripted [RUnspent [scenario_utxo], RSigned scenario_raw]))
       = Inr scenario_raw
   \<and> (\<exists>tx. checkdatasig_tx scenario_utxo 25 = Inr tx \<and> length (vout tx) = nat 25
          \<and> list_all (\<lambda>out. scriptPubKey out = checkdatasig_script) (vout tx))
   \<and> replay ListUnspent (node (scripted [RUnspent []])) = (RUnspent [], [])
   \<and> fst (create_checkdatasig_tx replay 25 (scripted [RUnspent []])) = Inl AssertionError"
proof -
  have a: "replay ListUnspent (node (scripted [RUnspent [scenario_utxo], RSigned scenario_raw]))
     = (RUnspent [scenario_utxo], [RSigned scenario_raw])"
    by (simp add: replay_def scripted_def)
  have b: "0 \<le> u_amount scenario_utxo"
    by (simp add: scenario_utxo_def)
  have c: "replay ListUnspent (node (scripted [RUnspent []])) = (RUnspent [], [])"
    by (simp add: replay_def scripted_def)
  from create_checkdatasig_tx_splits[where rpc = replay
      and s = "scripted [RUnspent [scenario_utxo], RSigned scenario_raw]" and count = 25, OF a]
    b scripted_funding
  have "\<exists>tx. checkdatasig_tx scenario_utxo 25 = Inr tx \<and> length (vout tx) = nat 25
          \<and> list_all (\<lambda>out. scriptPubKey out = checkdatasig_script) (vout tx)"
    by (metis zero_less_numeral)
  moreover from create_checkdatasig_tx_splits[where rpc = replay
      and s = "scripted [RUnspent []]" and count = 25, OF c]
  have "fst (create_checkdatasig_tx replay 25 (scripted [RUnspent []])) = Inl AssertionError"
    by simp
  moreover from scripted_funding
  have "fst (create_checkdatasig_tx replay 25 (scripted [RUnspent [scenario_utxo], RSigned scenario_raw]))
       = Inr scenario_raw"
    by (metis fst_conv)
  ultimately show ?thesis using a b c by simp
qed

end
